theory Spec2Isabelle
  imports Main
begin

section \<open>The conversion script \<open>scripts/convert_yolo_model.py\<close>\<close>

text \<open>
  The script chains three external tools (a checkpoint exporter, a command-line graph
  converter, an interpreter that loads the result) and an optional copy into an
  application tree. Nothing it computes is its own: what it owns is the order of the
  calls, the checks between them, and what it does when one of them fails. The
  embedding therefore keeps every external call as a parameter (the record \<open>env\<close>),
  runs the script's own control flow over an explicit state (the file system, the list
  of calls made so far, the lines printed so far), and keeps the two ways a Python
  function can fail to return apart: an exception of class \<open>Exception\<close>, which the
  script's \<open>except Exception\<close> clauses catch, and \<open>sys.exit\<close>, which they do not.
\<close>

subsection \<open>Exceptions\<close>

text \<open>
  An instance of Python's \<open>Exception\<close>: its class name and \<open>str(e)\<close>, the text the
  script prints. Signals outside \<open>Exception\<close> raised from outside the script
  (a keyboard interrupt) are not part of the model; \<open>SystemExit\<close> raised by the script
  itself is the result \<open>Exit\<close> below.
\<close>

datatype exn = Exception (exn_class: string) (exn_str: string)

subsection \<open>Paths (\<open>pathlib\<close> on POSIX)\<close>

text \<open>
  A parsed path: the root (\<open>''''\<close> for a relative path, \<open>''/''\<close>, or \<open>''//''\<close>) and
  the components, as \<open>PurePosixPath\<close> keeps them (empty components and \<open>''.''\<close> dropped).
\<close>

datatype pypath = PurePath (anchor: string) (parts: "string list")

text \<open>\<open>s.split('/')\<close>.\<close>

fun split_slash :: "string \<Rightarrow> string list" where
  "split_slash [] = [[]]"
| "split_slash (c # cs) =
     (if c = CHR ''/'' then [] # split_slash cs
      else (case split_slash cs of [] \<Rightarrow> [[c]] | x # xs \<Rightarrow> (c # x) # xs))"

text \<open>The root of a POSIX path: exactly two leading slashes are kept, any other number is one.\<close>

definition splitroot :: "string \<Rightarrow> string" where
  "splitroot s =
     (if take 1 s \<noteq> ''/'' then ''''
      else if take 2 s = ''//'' \<and> take 3 s \<noteq> ''///'' then ''//''
      else ''/'')"

definition Path :: "string \<Rightarrow> pypath" where
  "Path s = PurePath (splitroot s) (filter (\<lambda>x. x \<noteq> '''' \<and> x \<noteq> ''.'') (split_slash s))"

text \<open>
  The operator \<open>/\<close> of \<open>pathlib\<close>: an absolute right operand replaces the left one,
  a relative one is appended.
\<close>

definition truediv :: "pypath \<Rightarrow> string \<Rightarrow> pypath" where
  "truediv p key =
     (if splitroot key \<noteq> '''' then Path key
      else PurePath (anchor p) (parts p @ parts (Path key)))"

fun join_slash :: "string list \<Rightarrow> string" where
  "join_slash [] = ''''"
| "join_slash [x] = x"
| "join_slash (x # y # ys) = x @ ''/'' @ join_slash (y # ys)"

text \<open>\<open>str(path)\<close>.\<close>

definition fspath :: "pypath \<Rightarrow> string" where
  "fspath p =
     (if anchor p = '''' \<and> parts p = [] then ''.''
      else anchor p @ join_slash (parts p))"

definition parent :: "pypath \<Rightarrow> pypath" where
  "parent p = PurePath (anchor p) (butlast (parts p))"

text \<open>\<open>os.path.dirname\<close> and \<open>os.path.basename\<close> of \<open>posixpath\<close>, on the string itself.\<close>

definition os_path_dirname :: "string \<Rightarrow> string" where
  "os_path_dirname p =
     (let head = rev (dropWhile (\<lambda>c. c \<noteq> CHR ''/'') (rev p))
      in if head \<noteq> [] \<and> \<not> list_all (\<lambda>c. c = CHR ''/'') head
         then rev (dropWhile (\<lambda>c. c = CHR ''/'') (rev head))
         else head)"

definition os_path_basename :: "string \<Rightarrow> string" where
  "os_path_basename p = rev (takeWhile (\<lambda>c. c \<noteq> CHR ''/'') (rev p))"

subsection \<open>The file system\<close>

text \<open>
  An entry is a regular file with its bytes or a directory. The root and the current
  directory (no components) are always directories. A non-empty string names the entry
  its parsed path names, the empty string names nothing (\<open>os.stat('')\<close> fails);
  \<open>..\<close>, symbolic links and trailing slashes are not interpreted.
  \<open>read_only\<close> stands for a file system that refuses every write, \<open>dir_st_size\<close> for
  the size it reports for a directory.
\<close>

datatype node = File (contents: string) | Dir

record world =
  entries :: "pypath \<Rightarrow> node option"
  read_only :: bool
  dir_st_size :: nat

definition lookup :: "world \<Rightarrow> pypath \<Rightarrow> node option" where
  "lookup w p = (if parts p = [] then Some Dir else entries w p)"

definition is_dir :: "world \<Rightarrow> pypath \<Rightarrow> bool" where
  "is_dir w p = (lookup w p = Some Dir)"

definition stat_str :: "world \<Rightarrow> string \<Rightarrow> node option" where
  "stat_str w s = (if s = [] then None else lookup w (Path s))"

text \<open>\<open>os.path.exists\<close>: true of a file and of a directory.\<close>

definition path_exists :: "world \<Rightarrow> string \<Rightarrow> bool" where
  "path_exists w s = (stat_str w s \<noteq> None)"

definition getsize :: "world \<Rightarrow> string \<Rightarrow> exn + nat" where
  "getsize w s =
     (case stat_str w s of
        None \<Rightarrow> Inl (Exception ''FileNotFoundError'' ''[Errno 2] No such file or directory'')
      | Some (File c) \<Rightarrow> Inr (length c)
      | Some Dir \<Rightarrow> Inr (dir_st_size w))"

text \<open>\<open>os.mkdir\<close>: one level, and the entry must not exist.\<close>

definition os_mkdir :: "pypath \<Rightarrow> world \<Rightarrow> exn + world" where
  "os_mkdir p w =
     (if lookup w p \<noteq> None then Inl (Exception ''FileExistsError'' ''[Errno 17] File exists'')
      else (case lookup w (parent p) of
              None \<Rightarrow> Inl (Exception ''FileNotFoundError'' ''[Errno 2] No such file or directory'')
            | Some (File c) \<Rightarrow> Inl (Exception ''NotADirectoryError'' ''[Errno 20] Not a directory'')
            | Some Dir \<Rightarrow>
                if read_only w then Inl (Exception ''OSError'' ''[Errno 30] Read-only file system'')
                else Inr (w\<lparr>entries := (entries w)(p \<mapsto> Dir)\<rparr>)))"

text \<open>
  \<open>Path.mkdir(parents=True, exist_ok=True)\<close>, as \<open>pathlib\<close> writes it: try the last level;
  on \<open>FileNotFoundError\<close> make the parent the same way and try once more; on any other
  \<open>OSError\<close> succeed if the path is a directory already and raise otherwise. The
  components are taken last first, so that the parent is the tail.
\<close>

fun mkdir_from :: "string \<Rightarrow> string list \<Rightarrow> world \<Rightarrow> exn + world" where
  "mkdir_from a [] w = Inr w"
| "mkdir_from a (x # up) w =
     (let p = PurePath a (rev (x # up)) in
      case os_mkdir p w of
        Inr w' \<Rightarrow> Inr w'
      | Inl e \<Rightarrow>
          if exn_class e = ''FileNotFoundError'' then
            (case mkdir_from a up w of
               Inl e' \<Rightarrow> Inl e'
             | Inr w1 \<Rightarrow>
                 (case os_mkdir p w1 of
                    Inr w2 \<Rightarrow> Inr w2
                  | Inl e2 \<Rightarrow>
                      if exn_class e2 \<noteq> ''FileNotFoundError'' \<and> is_dir w1 p then Inr w1
                      else Inl e2))
          else if is_dir w p then Inr w
          else Inl e)"

definition mkdir_parents_exist_ok :: "pypath \<Rightarrow> world \<Rightarrow> exn + world" where
  "mkdir_parents_exist_ok p w = mkdir_from (anchor p) (rev (parts p)) w"

text \<open>
  \<open>shutil.copy(src, dst)\<close>: a directory as destination means the file of the same name
  inside it; copying a file onto itself raises; the source must be a regular file, the
  destination must not be a directory and its parent must be one; then the destination
  holds the bytes of the source, whatever it held before.
\<close>

definition shutil_copy :: "string \<Rightarrow> pypath \<Rightarrow> world \<Rightarrow> exn + world" where
  "shutil_copy src dst w =
     (let d = (if is_dir w dst then truediv dst (os_path_basename src) else dst)
      in if src \<noteq> [] \<and> Path src = d \<and> lookup w d \<noteq> None then
           Inl (Exception ''SameFileError'' (src @ '' and '' @ fspath d @ '' are the same file''))
         else (case stat_str w src of
                 None \<Rightarrow> Inl (Exception ''FileNotFoundError'' ''[Errno 2] No such file or directory'')
               | Some Dir \<Rightarrow> Inl (Exception ''IsADirectoryError'' ''[Errno 21] Is a directory'')
               | Some (File c) \<Rightarrow>
                   if lookup w d = Some Dir then
                     Inl (Exception ''IsADirectoryError'' ''[Errno 21] Is a directory'')
                   else (case lookup w (parent d) of
                           None \<Rightarrow> Inl (Exception ''FileNotFoundError'' ''[Errno 2] No such file or directory'')
                         | Some (File c') \<Rightarrow> Inl (Exception ''NotADirectoryError'' ''[Errno 20] Not a directory'')
                         | Some Dir \<Rightarrow>
                             if read_only w then
                               Inl (Exception ''OSError'' ''[Errno 30] Read-only file system'')
                             else Inr (w\<lparr>entries := (entries w)(d \<mapsto> File c)\<rparr>))))"

subsection \<open>State, results and the external tools\<close>

text \<open>
  What the script can observe and change: the file system, the calls it has made to
  anything outside itself (in order, with their arguments), and the lines it has
  printed (one entry for each \<open>print\<close>; character 10 is the newline of
  \<open>"\n"\<close>). \<open>Invoke\<close> records that a stage function was entered; it has no
  counterpart in the output and is there so that "the validator is never invoked" can
  be said of a run.
\<close>

datatype stage = Exporter | Converter | Validator | Installer

datatype event =
    Invoke stage
  | OsPathExists string
  | OsPathGetsize string
  | Import string
  | YoloLoad string
  | ModelExport string nat
  | SubprocessRun "string list"
  | InterpreterLoad string
  | AllocateTensors
  | GetInputDetails
  | GetOutputDetails
  | Mkdir pypath
  | ShutilCopy string pypath

record state =
  world :: world
  trace :: "event list"
  stdout :: "string list"

definition initial :: "world \<Rightarrow> state" where
  "initial w = \<lparr>world = w, trace = [], stdout = []\<rparr>"

text \<open>
  A statement or function body either completes with a value, raises an \<open>Exception\<close>,
  or leaves through \<open>sys.exit(code)\<close>.
\<close>

datatype 'a result = Ok 'a | Raise exn | Exit int

type_synonym 'a prog = "state \<Rightarrow> 'a result \<times> state"

definition preturn :: "'a \<Rightarrow> 'a prog" where
  "preturn x s = (Ok x, s)"

definition pbind :: "'a prog \<Rightarrow> ('a \<Rightarrow> 'b prog) \<Rightarrow> 'b prog" where
  "pbind m f s =
     (case m s of
        (Ok x, s') \<Rightarrow> f x s'
      | (Raise e, s') \<Rightarrow> (Raise e, s')
      | (Exit c, s') \<Rightarrow> (Exit c, s'))"

text \<open>\<open>try: body  except Exception as e: handler\<close>. \<open>sys.exit\<close> passes through.\<close>

definition try_except :: "'a prog \<Rightarrow> (exn \<Rightarrow> 'a prog) \<Rightarrow> 'a prog" where
  "try_except body handler s =
     (case body s of
        (Raise e, s') \<Rightarrow> handler e s'
      | (Ok x, s') \<Rightarrow> (Ok x, s')
      | (Exit c, s') \<Rightarrow> (Exit c, s'))"

definition sys_exit :: "int \<Rightarrow> 'a prog" where
  "sys_exit c s = (Exit c, s)"

definition print_line :: "string \<Rightarrow> unit prog" where
  "print_line l s = (Ok (), s\<lparr>stdout := stdout s @ [l]\<rparr>)"

definition log_event :: "event \<Rightarrow> unit prog" where
  "log_event ev s = (Ok (), s\<lparr>trace := trace s @ [ev]\<rparr>)"

text \<open>
  An external call: from the world to a value or an exception, and the world it leaves.
  \<open>call\<close> makes one and records it.
\<close>

type_synonym 'a ext = "world \<Rightarrow> (exn + 'a) \<times> world"

definition call :: "event \<Rightarrow> 'a ext \<Rightarrow> 'a prog" where
  "call ev f s =
     (case f (world s) of
        (Inr x, w') \<Rightarrow> (Ok x, s\<lparr>world := w', trace := trace s @ [ev]\<rparr>)
      | (Inl e, w') \<Rightarrow> (Raise e, s\<lparr>world := w', trace := trace s @ [ev]\<rparr>))"

definition os_path_exists :: "string \<Rightarrow> bool prog" where
  "os_path_exists p = call (OsPathExists p) (\<lambda>w. (Inr (path_exists w p), w))"

definition os_path_getsize :: "string \<Rightarrow> nat prog" where
  "os_path_getsize p = call (OsPathGetsize p) (\<lambda>w. (getsize w p, w))"

text \<open>\<open>p.mkdir(parents=True, exist_ok=True)\<close> and \<open>shutil.copy(src, dst)\<close> as calls.\<close>

definition mkdir :: "pypath \<Rightarrow> unit prog" where
  "mkdir p =
     call (Mkdir p)
       (\<lambda>w. case mkdir_parents_exist_ok p w of Inl e \<Rightarrow> (Inl e, w) | Inr w' \<Rightarrow> (Inr (), w'))"

definition copy :: "string \<Rightarrow> pypath \<Rightarrow> unit prog" where
  "copy src dst =
     call (ShutilCopy src dst)
       (\<lambda>w. case shutil_copy src dst w of Inl e \<Rightarrow> (Inl e, w) | Inr w' \<Rightarrow> (Inr (), w'))"

text \<open>The result of \<open>subprocess.run(..., capture_output=True, text=True)\<close>, as far as it is read.\<close>

record completed_process =
  returncode :: int
  stderr :: string

text \<open>A tensor descriptor: a dictionary from key to the printed form of its value.\<close>

type_synonym details = "(string \<Rightarrow> string option) list"

text \<open>
  The external tools. \<open>'m\<close> is the loaded checkpoint object, \<open>'i\<close> the interpreter
  object. \<open>format_mb\<close> is the text of \<open>f"{size / (1024 * 1024):.2f}"\<close> for a size in
  bytes (a floating-point format, kept as a parameter).
\<close>

record ('m, 'i) env =
  import_ultralytics :: "unit ext"
  YOLO :: "string \<Rightarrow> 'm ext"
  model_export :: "'m \<Rightarrow> string \<Rightarrow> nat \<Rightarrow> string ext"
  subprocess_run :: "string list \<Rightarrow> completed_process ext"
  import_tensorflow :: "unit ext"
  Interpreter :: "string \<Rightarrow> 'i ext"
  allocate_tensors :: "'i \<Rightarrow> 'i ext"
  get_input_details :: "'i \<Rightarrow> details ext"
  get_output_details :: "'i \<Rightarrow> details ext"
  format_mb :: "nat \<Rightarrow> string"

subsection \<open>Python values the script uses\<close>

text \<open>
  The check mark, the cross and the arrow of the messages, in UTF-8; the decimal form of
  \<open>len(...)\<close>; \<open>xs[0]\<close> and \<open>d[key]\<close> with the exceptions they raise.
\<close>

definition check_mark :: string where
  "check_mark = [CHR 0xE2, CHR 0x9C, CHR 0x93]"

definition cross_mark :: string where
  "cross_mark = [CHR 0xE2, CHR 0x9C, CHR 0x97]"

definition arrow :: string where
  "arrow = [CHR 0xE2, CHR 0x86, CHR 0x92]"

definition newline :: string where
  "newline = [CHR 0x0A]"

fun str_nat :: "nat \<Rightarrow> string" where
  "str_nat n =
     (if n < 10 then [char_of (48 + n)]
      else str_nat (n div 10) @ [char_of (48 + n mod 10)])"

definition first_item :: "'a list \<Rightarrow> 'a prog" where
  "first_item xs s =
     (case xs of
        [] \<Rightarrow> (Raise (Exception ''IndexError'' ''list index out of range''), s)
      | x # rest \<Rightarrow> (Ok x, s))"

definition getitem :: "(string \<Rightarrow> string option) \<Rightarrow> string \<Rightarrow> string prog" where
  "getitem d k s =
     (case d k of
        None \<Rightarrow> (Raise (Exception ''KeyError'' ([CHR 0x27] @ k @ [CHR 0x27])), s)
      | Some v \<Rightarrow> (Ok v, s))"

text \<open>The truth value of an optional string: \<open>None\<close> and the empty string are false.\<close>

definition truthy :: "string option \<Rightarrow> bool" where
  "truthy x = (case x of None \<Rightarrow> False | Some v \<Rightarrow> v \<noteq> [])"

subsection \<open>The four stages\<close>

text \<open>
  \<open>export_to_onnx(weights_path, output_dir)\<close>: the body of the \<open>try\<close>, the handler, and
  the function. The handler leaves through \<open>sys.exit(1)\<close>. \<open>output_dir\<close> is a parameter
  of the function and is not used.
\<close>

definition export_body :: "('m, 'i) env \<Rightarrow> string \<Rightarrow> string prog" where
  "export_body env weights_path =
     pbind (call (Import ''ultralytics'') (import_ultralytics env)) (\<lambda>u.
     pbind (call (YoloLoad weights_path) (YOLO env weights_path)) (\<lambda>model.
     pbind (call (ModelExport ''onnx'' 640) (model_export env model ''onnx'' 640)) (\<lambda>onnx_path.
     pbind (print_line (check_mark @ '' ONNX export complete: '' @ onnx_path)) (\<lambda>u.
     preturn onnx_path))))"

definition export_failed :: "exn \<Rightarrow> string prog" where
  "export_failed e =
     pbind (print_line (cross_mark @ '' ONNX export failed: '' @ exn_str e)) (\<lambda>u.
     sys_exit 1)"

definition export_to_onnx :: "('m, 'i) env \<Rightarrow> string \<Rightarrow> string \<Rightarrow> string prog" where
  "export_to_onnx env weights_path output_dir =
     pbind (log_event (Invoke Exporter)) (\<lambda>u.
     pbind (print_line (newline @ ''[1/3] Exporting '' @ weights_path @ '' to ONNX...'')) (\<lambda>u.
     try_except (export_body env weights_path) export_failed))"

text \<open>\<open>convert_to_tflite(onnx_path, tflite_path)\<close>.\<close>

definition convert_cmd :: "string \<Rightarrow> string \<Rightarrow> string list" where
  "convert_cmd onnx_path tflite_path =
     [''python'', ''-m'', ''tf2onnx.convert'',
      ''--opset'', ''13'',
      ''--tflite'', tflite_path,
      ''--input'', onnx_path]"

definition convert_body :: "('m, 'i) env \<Rightarrow> string \<Rightarrow> string \<Rightarrow> bool prog" where
  "convert_body env onnx_path tflite_path =
     (let cmd = convert_cmd onnx_path tflite_path in
      pbind (call (SubprocessRun cmd) (subprocess_run env cmd)) (\<lambda>result.
      if returncode result \<noteq> 0 then
        pbind (print_line (cross_mark @ '' TFLite conversion failed:'')) (\<lambda>u.
        pbind (print_line (stderr result)) (\<lambda>u.
        preturn False))
      else
        pbind (os_path_exists tflite_path) (\<lambda>found.
        if found then
          pbind (os_path_getsize tflite_path) (\<lambda>size_bytes.
          pbind (print_line (check_mark @ '' TFLite conversion complete: '' @ tflite_path
                   @ '' ('' @ format_mb env size_bytes @ '' MB)'')) (\<lambda>u.
          preturn True))
        else
          pbind (print_line (cross_mark @ '' TFLite file not created'')) (\<lambda>u.
          preturn False))))"

definition convert_failed :: "exn \<Rightarrow> bool prog" where
  "convert_failed e =
     pbind (print_line (cross_mark @ '' TFLite conversion failed: '' @ exn_str e)) (\<lambda>u.
     preturn False)"

definition convert_to_tflite :: "('m, 'i) env \<Rightarrow> string \<Rightarrow> string \<Rightarrow> bool prog" where
  "convert_to_tflite env onnx_path tflite_path =
     pbind (log_event (Invoke Converter)) (\<lambda>u.
     pbind (print_line (newline @ ''[2/3] Converting ONNX to TensorFlow Lite...'')) (\<lambda>u.
     try_except (convert_body env onnx_path tflite_path) convert_failed))"

text \<open>
  \<open>validate_tflite(tflite_path)\<close>. The line that says the model is valid is printed
  before the descriptors are indexed, as in the source.
\<close>

definition validate_body :: "('m, 'i) env \<Rightarrow> string \<Rightarrow> bool prog" where
  "validate_body env tflite_path =
     pbind (call (Import ''tensorflow'') (import_tensorflow env)) (\<lambda>u.
     pbind (call (InterpreterLoad tflite_path) (Interpreter env tflite_path)) (\<lambda>interpreter0.
     pbind (call AllocateTensors (allocate_tensors env interpreter0)) (\<lambda>interpreter.
     pbind (call GetInputDetails (get_input_details env interpreter)) (\<lambda>input_details.
     pbind (call GetOutputDetails (get_output_details env interpreter)) (\<lambda>output_details.
     pbind (print_line (check_mark @ '' Model validated successfully!'')) (\<lambda>u.
     pbind (print_line (newline @ ''Model Info:'')) (\<lambda>u.
     pbind (first_item input_details) (\<lambda>d.
     pbind (getitem d ''shape'') (\<lambda>shape.
     pbind (print_line (''  Input shape: '' @ shape)) (\<lambda>u.
     pbind (first_item input_details) (\<lambda>d.
     pbind (getitem d ''dtype'') (\<lambda>dtype.
     pbind (print_line (''  Input type: '' @ dtype)) (\<lambda>u.
     pbind (print_line (''  Number of outputs: '' @ str_nat (length output_details))) (\<lambda>u.
     preturn True))))))))))))))"

definition validate_failed :: "exn \<Rightarrow> bool prog" where
  "validate_failed e =
     pbind (print_line (cross_mark @ '' Model validation failed: '' @ exn_str e)) (\<lambda>u.
     preturn False)"

definition validate_tflite :: "('m, 'i) env \<Rightarrow> string \<Rightarrow> bool prog" where
  "validate_tflite env tflite_path =
     pbind (log_event (Invoke Validator)) (\<lambda>u.
     pbind (print_line (newline @ ''[3/3] Validating TFLite model...'')) (\<lambda>u.
     try_except (validate_body env tflite_path) validate_failed))"

text \<open>
  \<open>copy_to_android_assets(tflite_path, android_project_path)\<close>. \<open>import shutil\<close> is an
  import of the standard library and is taken to succeed.
\<close>

definition assets_dir :: "string \<Rightarrow> pypath" where
  "assets_dir android_project_path =
     truediv (truediv (truediv (truediv (Path android_project_path) ''app'') ''src'') ''main'') ''assets''"

definition target_path :: "string \<Rightarrow> pypath" where
  "target_path android_project_path =
     truediv (assets_dir android_project_path) ''yolo_plate_detector.tflite''"

definition copy_body :: "string \<Rightarrow> string \<Rightarrow> bool prog" where
  "copy_body tflite_path android_project_path =
     pbind (mkdir (assets_dir android_project_path)) (\<lambda>u.
     pbind (copy tflite_path (target_path android_project_path)) (\<lambda>u.
     pbind (print_line (newline @ check_mark @ '' Copied to Android assets: ''
              @ fspath (target_path android_project_path))) (\<lambda>u.
     preturn True)))"

definition copy_failed :: "exn \<Rightarrow> bool prog" where
  "copy_failed e =
     pbind (print_line (cross_mark @ '' Failed to copy to Android assets: '' @ exn_str e)) (\<lambda>u.
     preturn False)"

definition copy_to_android_assets :: "string \<Rightarrow> string \<Rightarrow> bool prog" where
  "copy_to_android_assets tflite_path android_project_path =
     pbind (log_event (Invoke Installer)) (\<lambda>u.
     try_except (copy_body tflite_path android_project_path) copy_failed)"

subsection \<open>The entry point\<close>

text \<open>
  The parsed command line: two required options and an optional one (\<open>args.output\<close> is
  \<open>output_arg\<close> here).
\<close>

record args =
  weights :: string
  output_arg :: string
  android_project :: "string option"

definition banner :: "unit prog" where
  "banner =
     pbind (print_line (replicate 60 CHR ''='')) (\<lambda>u.
     pbind (print_line (''YOLO '' @ arrow @ '' TensorFlow Lite Conversion'')) (\<lambda>u.
     print_line (replicate 60 CHR ''='')))"

definition next_steps :: "string \<Rightarrow> unit prog" where
  "next_steps out =
     pbind (print_line (newline @ replicate 60 CHR ''='')) (\<lambda>u.
     pbind (print_line (check_mark @ '' Conversion complete!'')) (\<lambda>u.
     pbind (print_line (replicate 60 CHR ''='')) (\<lambda>u.
     pbind (print_line (newline @ ''Next steps:'')) (\<lambda>u.
     pbind (print_line (''1. Place '' @ out @ '' in: app/src/main/assets/yolo_plate_detector.tflite'')) (\<lambda>u.
     pbind (print_line ''2. Implement PlateDetector in Android'') (\<lambda>u.
     print_line ''3. Test with sample images''))))))"

definition main :: "('m, 'i) env \<Rightarrow> args \<Rightarrow> unit prog" where
  "main env a =
     pbind (os_path_exists (weights a)) (\<lambda>found.
     pbind (if \<not> found then
              pbind (print_line (''Error: Weights file not found: '' @ weights a)) (\<lambda>u.
              sys_exit 1)
            else preturn ()) (\<lambda>u.
     pbind banner (\<lambda>u.
     pbind (export_to_onnx env (weights a) (os_path_dirname (output_arg a))) (\<lambda>onnx_path.
     pbind (convert_to_tflite env onnx_path (output_arg a)) (\<lambda>converted.
     pbind (if \<not> converted then sys_exit 1 else preturn ()) (\<lambda>u.
     pbind (validate_tflite env (output_arg a)) (\<lambda>valid.
     pbind (if \<not> valid then sys_exit 1 else preturn ()) (\<lambda>u.
     pbind (if truthy (android_project a) then
              pbind (copy_to_android_assets (output_arg a) (the (android_project a))) (\<lambda>copied.
              preturn ())
            else preturn ()) (\<lambda>u.
     next_steps (output_arg a))))))))))"

text \<open>
  The exit status of the process that runs \<open>main()\<close>: 0 when \<open>main\<close> returns, the code of
  \<open>sys.exit\<close>, and 1 for an exception that reaches the top level.
\<close>

definition exit_status :: "unit result \<times> state \<Rightarrow> int" where
  "exit_status r = (case fst r of Ok u \<Rightarrow> 0 | Exit c \<Rightarrow> c | Raise e \<Rightarrow> 1)"

definition stages_invoked :: "state \<Rightarrow> stage list" where
  "stages_invoked s = concat (map (\<lambda>ev. case ev of Invoke st \<Rightarrow> [st] | _ \<Rightarrow> []) (trace s))"

subsection \<open>Names for the states of a run\<close>

text \<open>
  The state in which \<open>main\<close> calls the exporter when the weights file exists (the check
  made, the banner printed), and the part of \<open>main\<close> from that call on. Lemma
  \<open>main_started\<close> below shows that \<open>main\<close> is \<open>pipeline\<close> run from \<open>started\<close>.
  \<open>entered\<close> is the state of a stage after its first line.
\<close>

definition started :: "args \<Rightarrow> world \<Rightarrow> state" where
  "started a w =
     \<lparr>world = w,
      trace = [OsPathExists (weights a)],
      stdout = [replicate 60 CHR ''='',
                ''YOLO '' @ arrow @ '' TensorFlow Lite Conversion'',
                replicate 60 CHR ''='']\<rparr>"

definition pipeline :: "('m, 'i) env \<Rightarrow> args \<Rightarrow> unit prog" where
  "pipeline env a =
     pbind (export_to_onnx env (weights a) (os_path_dirname (output_arg a))) (\<lambda>onnx_path.
     pbind (convert_to_tflite env onnx_path (output_arg a)) (\<lambda>converted.
     pbind (if \<not> converted then sys_exit 1 else preturn ()) (\<lambda>u.
     pbind (validate_tflite env (output_arg a)) (\<lambda>valid.
     pbind (if \<not> valid then sys_exit 1 else preturn ()) (\<lambda>u.
     pbind (if truthy (android_project a) then
              pbind (copy_to_android_assets (output_arg a) (the (android_project a))) (\<lambda>copied.
              preturn ())
            else preturn ()) (\<lambda>u.
     next_steps (output_arg a)))))))"

definition entered :: "stage \<Rightarrow> string \<Rightarrow> state \<Rightarrow> state" where
  "entered st l s = s\<lparr>trace := trace s @ [Invoke st], stdout := stdout s @ [l]\<rparr>"

text \<open>
  Properties of a program fragment used in the proofs: it never leaves through
  \<open>sys.exit\<close>; it always returns a value; it enters no stage; it only adds to the list
  of calls.
\<close>

definition no_exit :: "'a prog \<Rightarrow> bool" where
  "no_exit m = (\<forall>s c s'. m s \<noteq> (Exit c, s'))"

definition returns :: "'a prog \<Rightarrow> bool" where
  "returns m = (\<forall>s. \<exists>x s'. m s = (Ok x, s'))"

definition quiet :: "'a prog \<Rightarrow> bool" where
  "quiet m = (\<forall>s. stages_invoked (snd (m s)) = stages_invoked s)"

definition extends :: "'a prog \<Rightarrow> bool" where
  "extends m = (\<forall>s. \<exists>rest. trace (snd (m s)) = trace s @ rest)"

text \<open>
  No regular file stands at a path or at one of its ancestors (components last first,
  as for \<open>mkdir_from\<close>): the condition under which \<open>mkdir\<close> on a writable file system
  cannot fail.
\<close>

fun no_file_at :: "world \<Rightarrow> string \<Rightarrow> string list \<Rightarrow> bool" where
  "no_file_at w a [] = True"
| "no_file_at w a (x # up) =
     ((case lookup w (PurePath a (rev (x # up))) of Some (File c) \<Rightarrow> False | Some Dir \<Rightarrow> True | None \<Rightarrow> True)
      \<and> no_file_at w a up)"

definition unobstructed :: "world \<Rightarrow> pypath \<Rightarrow> bool" where
  "unobstructed w p = no_file_at w (anchor p) (rev (parts p))"

subsection \<open>Concrete runs\<close>

text \<open>
  An environment in which every tool succeeds (the converter writes four bytes to the
  path after \<open>--tflite\<close>; the exporter returns a path at which it writes nothing), and
  variants in which one tool fails. A world that holds the weights file only, one in
  which a regular file stands where the project's \<open>app\<close> directory should be, an empty
  one, and one in which an older model is installed already.
\<close>

definition demo_env :: "(unit, unit) env" where
  "demo_env = \<lparr>
     import_ultralytics = (\<lambda>w. (Inr (), w)),
     YOLO = (\<lambda>p w. (Inr (), w)),
     model_export = (\<lambda>m f n w. (Inr ''best.onnx'', w)),
     subprocess_run = (\<lambda>cmd w. (Inr \<lparr>returncode = 0, stderr = ''''\<rparr>,
        w\<lparr>entries := (entries w)(Path (cmd ! 6) \<mapsto> File ''TFL3'')\<rparr>)),
     import_tensorflow = (\<lambda>w. (Inr (), w)),
     Interpreter = (\<lambda>p w. (Inr (), w)),
     allocate_tensors = (\<lambda>i w. (Inr i, w)),
     get_input_details = (\<lambda>i w. (Inr [[''shape'' \<mapsto> ''[1 640 640 3]'', ''dtype'' \<mapsto> ''float32'']], w)),
     get_output_details = (\<lambda>i w. (Inr [Map.empty], w)),
     format_mb = (\<lambda>n. ''0.00'')\<rparr>"

definition failing_converter_env :: "(unit, unit) env" where
  "failing_converter_env =
     demo_env\<lparr>subprocess_run := (\<lambda>cmd w. (Inr \<lparr>returncode = 1, stderr = ''unsupported op''\<rparr>, w))\<rparr>"

definition silent_converter_env :: "(unit, unit) env" where
  "silent_converter_env =
     demo_env\<lparr>subprocess_run := (\<lambda>cmd w. (Inr \<lparr>returncode = 0, stderr = ''''\<rparr>, w))\<rparr>"

definition no_inputs_env :: "(unit, unit) env" where
  "no_inputs_env = demo_env\<lparr>get_input_details := (\<lambda>i w. (Inr [], w))\<rparr>"

definition boom :: exn where
  "boom = Exception ''RuntimeError'' ''boom''"

definition no_ultralytics_env :: "(unit, unit) env" where
  "no_ultralytics_env = demo_env\<lparr>import_ultralytics := (\<lambda>w. (Inl boom, w))\<rparr>"

definition bad_checkpoint_env :: "(unit, unit) env" where
  "bad_checkpoint_env = demo_env\<lparr>YOLO := (\<lambda>p w. (Inl boom, w))\<rparr>"

definition failing_export_env :: "(unit, unit) env" where
  "failing_export_env = demo_env\<lparr>model_export := (\<lambda>m f n w. (Inl boom, w))\<rparr>"

definition demo_world :: world where
  "demo_world = \<lparr>entries = [Path ''best.pt'' \<mapsto> File ''weights''], read_only = False, dir_st_size = 4096\<rparr>"

definition blocked_world :: world where
  "blocked_world =
     \<lparr>entries = [Path ''best.pt'' \<mapsto> File ''weights'', Path ''proj'' \<mapsto> Dir,
                  Path ''proj/app'' \<mapsto> File ''not a directory''],
      read_only = False, dir_st_size = 4096\<rparr>"

definition empty_world :: world where
  "empty_world = \<lparr>entries = Map.empty, read_only = False, dir_st_size = 4096\<rparr>"

definition installed_world :: world where
  "installed_world =
     \<lparr>entries = [Path ''model.tflite'' \<mapsto> File ''TFL3'',
                  Path ''proj'' \<mapsto> Dir, Path ''proj/app'' \<mapsto> Dir, Path ''proj/app/src'' \<mapsto> Dir,
                  Path ''proj/app/src/main'' \<mapsto> Dir, Path ''proj/app/src/main/assets'' \<mapsto> Dir,
                  Path ''proj/app/src/main/assets/yolo_plate_detector.tflite'' \<mapsto> File ''old model''],
      read_only = False, dir_st_size = 4096\<rparr>"

definition demo_args :: "string option \<Rightarrow> args" where
  "demo_args proj = \<lparr>weights = ''best.pt'', output_arg = ''model.tflite'', android_project = proj\<rparr>"

section \<open>Proofs\<close>

subsection \<open>Sequencing and exception handling\<close>

lemmas monad_defs = pbind_def preturn_def try_except_def sys_exit_def print_line_def log_event_def call_def

lemma pbind_OkE:
  assumes "pbind m f s = (Ok y, s'')"
  obtains x s' where "m s = (Ok x, s')" and "f x s' = (Ok y, s'')"
  using assms by (auto simp: pbind_def split: prod.splits result.splits)

lemma call_OkE:
  assumes "call ev g s = (Ok x, s')"
  obtains w' where "g (world s) = (Inr x, w')" and "s' = s\<lparr>world := w', trace := trace s @ [ev]\<rparr>"
  using assms by (auto simp: call_def split: prod.splits sum.splits)

lemma print_OkE:
  assumes "print_line l s = (Ok x, s')"
  obtains "s' = s\<lparr>stdout := stdout s @ [l]\<rparr>"
  using assms by (auto simp: print_line_def)

lemma first_item_OkE:
  assumes "first_item xs s = (Ok x, s')"
  obtains rest where "xs = x # rest" and "s' = s"
  using assms by (auto simp: first_item_def split: list.splits)

lemma getitem_OkE:
  assumes "getitem d k s = (Ok v, s')"
  obtains "d k = Some v" and "s' = s"
  using assms by (auto simp: getitem_def split: option.splits)

lemma try_except_cases:
  assumes "no_exit body"
  shows "(\<exists>x s'. body s = (Ok x, s') \<and> try_except body h s = (Ok x, s')) \<or>
         (\<exists>e s'. body s = (Raise e, s') \<and> try_except body h s = h e s')"
proof (cases "body s")
  case (Pair r s')
  show ?thesis
  proof (cases r)
    case (Ok x)
    with Pair show ?thesis by (simp add: try_except_def)
  next
    case (Raise e)
    with Pair show ?thesis by (simp add: try_except_def)
  next
    case (Exit c)
    with Pair assms show ?thesis by (simp add: no_exit_def)
  qed
qed

lemma no_exit_pbind: "no_exit m \<Longrightarrow> (\<And>x. no_exit (f x)) \<Longrightarrow> no_exit (pbind m f)"
  unfolding no_exit_def pbind_def
  by (auto split: prod.splits result.splits)

lemma no_exit_basic:
  "no_exit (preturn x)" "no_exit (print_line l)" "no_exit (log_event ev)" "no_exit (call ev f)"
  "no_exit (first_item xs)" "no_exit (getitem d k)"
  by (auto simp: no_exit_def monad_defs first_item_def getitem_def split: prod.splits sum.splits list.splits option.splits)

lemma no_exit_if: "no_exit m \<Longrightarrow> no_exit n \<Longrightarrow> no_exit (if b then m else n)"
  by simp

lemma no_exit_fs: "no_exit (os_path_exists p)" "no_exit (os_path_getsize p)" "no_exit (mkdir q)" "no_exit (copy p q)"
  by (simp_all add: os_path_exists_def os_path_getsize_def mkdir_def copy_def no_exit_basic)

lemma returns_pbind: "returns m \<Longrightarrow> (\<And>x. returns (f x)) \<Longrightarrow> returns (pbind m f)"
proof -
  assume m: "returns m" and f: "\<And>x. returns (f x)"
  show ?thesis
    unfolding returns_def
  proof
    fix s
    from m obtain x s1 where 1: "m s = (Ok x, s1)"
      unfolding returns_def by blast
    from f obtain y s2 where 2: "f x s1 = (Ok y, s2)"
      unfolding returns_def by blast
    from 1 2 show "\<exists>y s'. pbind m f s = (Ok y, s')"
      by (simp add: pbind_def)
  qed
qed

lemma returns_basic:
  "returns (preturn x)" "returns (print_line l)" "returns (log_event ev)"
  by (auto simp: returns_def monad_defs)

lemma returns_try: "no_exit body \<Longrightarrow> (\<And>e. returns (h e)) \<Longrightarrow> returns (try_except body h)"
  unfolding returns_def no_exit_def try_except_def
  by (auto split: prod.splits result.splits)

lemma quiet_pbind: "quiet m \<Longrightarrow> (\<And>x. quiet (f x)) \<Longrightarrow> quiet (pbind m f)"
  unfolding quiet_def pbind_def
  by (auto split: prod.splits result.splits) (metis snd_conv)+

lemma quiet_try: "quiet m \<Longrightarrow> (\<And>x. quiet (f x)) \<Longrightarrow> quiet (try_except m f)"
  unfolding quiet_def try_except_def
  by (auto split: prod.splits result.splits) (metis snd_conv)+

lemma quiet_if: "quiet m \<Longrightarrow> quiet n \<Longrightarrow> quiet (if b then m else n)"
  by simp

lemma quiet_basic:
  "quiet (preturn x)" "quiet (print_line l)" "quiet (sys_exit c)"
  "quiet (first_item xs)" "quiet (getitem d k)"
  by (auto simp: quiet_def monad_defs first_item_def getitem_def stages_invoked_def split: list.splits option.splits)

lemma quiet_call: "(\<And>st. ev \<noteq> Invoke st) \<Longrightarrow> quiet (call ev f)"
  by (cases ev) (auto simp: quiet_def call_def stages_invoked_def split: prod.splits sum.splits)

lemma quiet_fs: "quiet (os_path_exists p)" "quiet (os_path_getsize p)" "quiet (mkdir q)" "quiet (copy p q)"
  by (simp_all add: os_path_exists_def os_path_getsize_def mkdir_def copy_def quiet_call)

lemma stages_log: "stages_invoked (snd (pbind (log_event (Invoke st)) (\<lambda>u. m) s)) = stages_invoked s @ [st]" if "quiet m"
proof -
  have "pbind (log_event (Invoke st)) (\<lambda>u. m) s = m (s\<lparr>trace := trace s @ [Invoke st]\<rparr>)"
    by (simp add: pbind_def log_event_def)
  moreover have "stages_invoked (s\<lparr>trace := trace s @ [Invoke st]\<rparr>) = stages_invoked s @ [st]"
    by (simp add: stages_invoked_def)
  ultimately show ?thesis
    using that by (simp add: quiet_def)
qed

lemma extends_pbind: "extends m \<Longrightarrow> (\<And>x. extends (f x)) \<Longrightarrow> extends (pbind m f)"
proof -
  assume m: "extends m" and f: "\<And>x. extends (f x)"
  show ?thesis
    unfolding extends_def
  proof
    fix s
    obtain r s1 where ms: "m s = (r, s1)" by (cases "m s")
    from m obtain rest1 where 1: "trace s1 = trace s @ rest1"
      unfolding extends_def using ms by (metis snd_conv)
    show "\<exists>rest. trace (snd (pbind m f s)) = trace s @ rest"
    proof (cases r)
      case (Ok x)
      from f obtain rest2 where "trace (snd (f x s1)) = trace s1 @ rest2"
        unfolding extends_def by blast
      with 1 ms Ok show ?thesis by (simp add: pbind_def)
    next
      case (Raise e)
      with 1 ms show ?thesis by (simp add: pbind_def)
    next
      case (Exit c)
      with 1 ms show ?thesis by (simp add: pbind_def)
    qed
  qed
qed

lemma extends_try: "extends m \<Longrightarrow> (\<And>x. extends (f x)) \<Longrightarrow> extends (try_except m f)"
proof -
  assume m: "extends m" and f: "\<And>x. extends (f x)"
  show ?thesis
    unfolding extends_def
  proof
    fix s
    obtain r s1 where ms: "m s = (r, s1)" by (cases "m s")
    from m obtain rest1 where 1: "trace s1 = trace s @ rest1"
      unfolding extends_def using ms by (metis snd_conv)
    show "\<exists>rest. trace (snd (try_except m f s)) = trace s @ rest"
    proof (cases r)
      case (Raise x)
      from f obtain rest2 where "trace (snd (f x s1)) = trace s1 @ rest2"
        unfolding extends_def by blast
      with 1 ms Raise show ?thesis by (simp add: try_except_def)
    next
      case (Ok e)
      with 1 ms show ?thesis by (simp add: try_except_def)
    next
      case (Exit c)
      with 1 ms show ?thesis by (simp add: try_except_def)
    qed
  qed
qed

lemma extends_if: "extends m \<Longrightarrow> extends n \<Longrightarrow> extends (if b then m else n)"
  by simp

lemma extends_basic:
  "extends (preturn x)" "extends (print_line l)" "extends (sys_exit c)" "extends (log_event ev)"
  "extends (call ev g)" "extends (first_item xs)" "extends (getitem d k)"
  by (auto simp: extends_def monad_defs first_item_def getitem_def split: list.splits option.splits prod.splits sum.splits)

lemma extends_fs: "extends (os_path_exists p)" "extends (os_path_getsize p)" "extends (mkdir q)" "extends (copy p q)"
  by (simp_all add: os_path_exists_def os_path_getsize_def mkdir_def copy_def extends_basic)

lemma pbind_extends:
  assumes "\<And>x. extends (f x)"
  shows "\<exists>rest. trace (snd (pbind m f s)) = trace (snd (m s)) @ rest"
proof (cases "m s")
  case (Pair r s1)
  show ?thesis
  proof (cases r)
    case (Ok x)
    from assms obtain rest where "trace (snd (f x s1)) = trace s1 @ rest"
      unfolding extends_def by blast
    with Pair Ok show ?thesis by (simp add: pbind_def)
  next
    case (Raise e)
    with Pair show ?thesis by (simp add: pbind_def)
  next
    case (Exit c)
    with Pair show ?thesis by (simp add: pbind_def)
  qed
qed

subsection \<open>The stages\<close>

lemma convert_returns: "returns (convert_to_tflite env onnx out)"
  unfolding convert_to_tflite_def convert_body_def convert_failed_def Let_def
  by (intro returns_pbind returns_try no_exit_pbind returns_basic no_exit_basic no_exit_fs no_exit_if)

lemma validate_returns: "returns (validate_tflite env p)"
  unfolding validate_tflite_def validate_body_def validate_failed_def
  by (intro returns_pbind returns_try no_exit_pbind returns_basic no_exit_basic)

lemma copy_returns: "returns (copy_to_android_assets t proj)"
  unfolding copy_to_android_assets_def copy_body_def copy_failed_def
  by (intro returns_pbind returns_try no_exit_pbind returns_basic no_exit_basic no_exit_fs)

lemma next_steps_returns: "returns (next_steps out)"
  unfolding next_steps_def
  by (intro returns_pbind returns_basic)

lemma export_stages: "stages_invoked (snd (export_to_onnx env wp od s)) = stages_invoked s @ [Exporter]"
  unfolding export_to_onnx_def export_body_def export_failed_def
  by (intro stages_log quiet_pbind quiet_try quiet_basic quiet_call) simp_all

lemma convert_stages: "stages_invoked (snd (convert_to_tflite env onnx out s)) = stages_invoked s @ [Converter]"
  unfolding convert_to_tflite_def convert_body_def convert_failed_def Let_def
  by (intro stages_log quiet_pbind quiet_try quiet_basic quiet_call quiet_if quiet_fs) simp_all

lemma validate_stages: "stages_invoked (snd (validate_tflite env p s)) = stages_invoked s @ [Validator]"
  unfolding validate_tflite_def validate_body_def validate_failed_def
  by (intro stages_log quiet_pbind quiet_try quiet_basic quiet_call) simp_all

lemma copy_stages: "stages_invoked (snd (copy_to_android_assets t proj s)) = stages_invoked s @ [Installer]"
  unfolding copy_to_android_assets_def copy_body_def copy_failed_def
  by (intro stages_log quiet_pbind quiet_try quiet_basic quiet_fs)

lemma next_steps_quiet: "quiet (next_steps out)"
  unfolding next_steps_def
  by (intro quiet_pbind quiet_basic)

lemma next_steps_result:
  "fst (next_steps out s) = Ok ()" "stages_invoked (snd (next_steps out s)) = stages_invoked s"
  using next_steps_returns [of out] next_steps_quiet [of out]
  by (auto simp: returns_def quiet_def) (metis fst_conv)

lemma extends_stages:
  "extends (validate_tflite env p)" "extends (copy_to_android_assets t proj)" "extends (next_steps out)"
  unfolding validate_tflite_def validate_body_def validate_failed_def
    copy_to_android_assets_def copy_body_def copy_failed_def next_steps_def
  by (intro extends_pbind extends_try extends_basic extends_fs)+

lemma export_shape:
  "(\<exists>p s'. export_to_onnx env wp od s = (Ok p, s')) \<or> (\<exists>s'. export_to_onnx env wp od s = (Exit 1, s'))"
  by (auto simp add: export_to_onnx_def export_body_def export_failed_def monad_defs
      split: prod.splits sum.splits result.splits)

lemma export_ok_trace:
  "export_to_onnx env wp od s = (Ok p, s2) \<Longrightarrow>
   trace s2 = trace s @ [Invoke Exporter, Import ''ultralytics'', YoloLoad wp, ModelExport ''onnx'' 640]"
  by (auto simp add: export_to_onnx_def export_body_def export_failed_def monad_defs
      split: prod.splits sum.splits result.splits)

lemma export_import_raises:
  "import_ultralytics env (world s) = (Inl e, w1) \<Longrightarrow>
   export_to_onnx env wp od s =
     (Exit 1, s\<lparr>world := w1,
                trace := trace s @ [Invoke Exporter, Import ''ultralytics''],
                stdout := stdout s @ [newline @ ''[1/3] Exporting '' @ wp @ '' to ONNX...'',
                                      cross_mark @ '' ONNX export failed: '' @ exn_str e]\<rparr>)"
  by (simp add: export_to_onnx_def export_body_def export_failed_def monad_defs)

lemma export_load_raises:
  "import_ultralytics env (world s) = (Inr (), w1) \<Longrightarrow> YOLO env wp w1 = (Inl e, w2) \<Longrightarrow>
   export_to_onnx env wp od s =
     (Exit 1, s\<lparr>world := w2,
                trace := trace s @ [Invoke Exporter, Import ''ultralytics'', YoloLoad wp],
                stdout := stdout s @ [newline @ ''[1/3] Exporting '' @ wp @ '' to ONNX...'',
                                      cross_mark @ '' ONNX export failed: '' @ exn_str e]\<rparr>)"
  by (simp add: export_to_onnx_def export_body_def export_failed_def monad_defs)

lemma export_export_raises:
  "import_ultralytics env (world s) = (Inr (), w1) \<Longrightarrow> YOLO env wp w1 = (Inr model, w2) \<Longrightarrow>
   model_export env model ''onnx'' 640 w2 = (Inl e, w3) \<Longrightarrow>
   export_to_onnx env wp od s =
     (Exit 1, s\<lparr>world := w3,
                trace := trace s @ [Invoke Exporter, Import ''ultralytics'', YoloLoad wp, ModelExport ''onnx'' 640],
                stdout := stdout s @ [newline @ ''[1/3] Exporting '' @ wp @ '' to ONNX...'',
                                      cross_mark @ '' ONNX export failed: '' @ exn_str e]\<rparr>)"
  by (simp add: export_to_onnx_def export_body_def export_failed_def monad_defs)

lemma export_never_raises: "fst (export_to_onnx env wp od s) \<noteq> Raise e'"
  using export_shape [of env wp od s] by auto

lemma export_ok_only_on_success:
  "fst (export_to_onnx env wp od s) = Ok p \<Longrightarrow>
   \<exists>w1 model w2 w3. import_ultralytics env (world s) = (Inr (), w1) \<and> YOLO env wp w1 = (Inr model, w2) \<and>
      model_export env model ''onnx'' 640 w2 = (Inr p, w3)"
  by (auto simp add: export_to_onnx_def export_body_def export_failed_def monad_defs
      split: prod.splits sum.splits result.splits)

lemma convert_nonzero:
  "subprocess_run env (convert_cmd onnx out) (world s) = (Inr r, w') \<Longrightarrow> returncode r \<noteq> 0 \<Longrightarrow>
   fst (convert_to_tflite env onnx out s) = Ok False"
  by (simp add: convert_to_tflite_def convert_body_def monad_defs Let_def)

lemma convert_trace:
  "\<exists>rest. trace (snd (convert_to_tflite env onnx out s)) =
     trace s @ [Invoke Converter, SubprocessRun (convert_cmd onnx out)] @ rest"
proof -
  let ?s1 = "s\<lparr>trace := trace s @ [Invoke Converter],
              stdout := stdout s @ [newline @ ''[2/3] Converting ONNX to TensorFlow Lite...'']\<rparr>"
  let ?cmd = "convert_cmd onnx out"
  let ?rest = "\<lambda>result.
      if returncode result \<noteq> 0 then
        pbind (print_line (cross_mark @ '' TFLite conversion failed:'')) (\<lambda>u.
        pbind (print_line (stderr result)) (\<lambda>u.
        preturn False))
      else
        pbind (os_path_exists out) (\<lambda>found.
        if found then
          pbind (os_path_getsize out) (\<lambda>size_bytes.
          pbind (print_line (check_mark @ '' TFLite conversion complete: '' @ out
                   @ '' ('' @ format_mb env size_bytes @ '' MB)'')) (\<lambda>u.
          preturn True))
        else
          pbind (print_line (cross_mark @ '' TFLite file not created'')) (\<lambda>u.
          preturn False))"
  have unfold: "convert_to_tflite env onnx out s =
      try_except (pbind (call (SubprocessRun ?cmd) (subprocess_run env ?cmd)) ?rest) convert_failed ?s1"
    by (simp add: convert_to_tflite_def convert_body_def pbind_def log_event_def print_line_def Let_def)
  have ext: "\<And>r. extends (?rest r)"
    by (intro extends_if extends_pbind extends_basic extends_fs)
  have extf: "\<And>e. extends (convert_failed e)"
    unfolding convert_failed_def by (intro extends_pbind extends_basic)
  obtain r w' where run: "subprocess_run env ?cmd (world s) = (r, w')"
    by (cases "subprocess_run env ?cmd (world s)")
  let ?s2 = "?s1\<lparr>world := w', trace := trace ?s1 @ [SubprocessRun ?cmd]\<rparr>"
  show ?thesis
  proof (cases r)
    case (Inl e)
    with run have "convert_to_tflite env onnx out s = convert_failed e ?s2"
      by (simp add: unfold try_except_def pbind_def call_def)
    moreover from extf obtain rest where "trace (snd (convert_failed e ?s2)) = trace ?s2 @ rest"
      unfolding extends_def by blast
    ultimately show ?thesis by simp
  next
    case (Inr x)
    with run have "convert_to_tflite env onnx out s = try_except (?rest x) convert_failed ?s2"
      by (simp add: unfold try_except_def pbind_def call_def)
    moreover have "extends (try_except (?rest x) convert_failed)"
      by (rule extends_try [OF ext extf])
    then obtain rest
      where "trace (snd (try_except (?rest x) convert_failed ?s2)) = trace ?s2 @ rest"
      unfolding extends_def by blast
    ultimately show ?thesis by simp
  qed
qed

lemma validate_body_no_exit: "no_exit (validate_body env p)"
  unfolding validate_body_def
  by (intro no_exit_pbind no_exit_basic)

lemma validate_unfold:
  "validate_tflite env p s =
     try_except (validate_body env p) validate_failed
       (entered Validator (newline @ ''[3/3] Validating TFLite model...'') s)"
  by (simp add: validate_tflite_def pbind_def log_event_def print_line_def entered_def)

lemma validate_failed_result:
  "validate_failed e s = (Ok False, s\<lparr>stdout := stdout s @ [cross_mark @ '' Model validation failed: '' @ exn_str e]\<rparr>)"
  by (simp add: validate_failed_def pbind_def print_line_def preturn_def)

lemma validate_body_true:
  assumes "validate_body env p s = (Ok b, s')"
  shows "b \<and> (\<exists>w1 i0 w2 i w3 ind w4 outd w5 d rest sh dt.
           import_tensorflow env (world s) = (Inr (), w1) \<and>
           Interpreter env p w1 = (Inr i0, w2) \<and>
           allocate_tensors env i0 w2 = (Inr i, w3) \<and>
           get_input_details env i w3 = (Inr ind, w4) \<and>
           get_output_details env i w4 = (Inr outd, w5) \<and>
           ind = d # rest \<and> d ''shape'' = Some sh \<and> d ''dtype'' = Some dt)"
  using assms unfolding validate_body_def
  apply (elim pbind_OkE call_OkE print_OkE first_item_OkE getitem_OkE)
  apply (simp add: preturn_def)
  done

lemma validate_body_runs:
  assumes "import_tensorflow env (world s) = (Inr (), w1)"
      and "Interpreter env p w1 = (Inr i0, w2)"
      and "allocate_tensors env i0 w2 = (Inr i, w3)"
      and "get_input_details env i w3 = (Inr (d # rest), w4)"
      and "get_output_details env i w4 = (Inr outd, w5)"
      and "d ''shape'' = Some sh" and "d ''dtype'' = Some dt"
  shows "fst (validate_body env p s) = Ok True"
  using assms by (simp add: validate_body_def monad_defs first_item_def getitem_def)

lemma validate_characterised:
  "\<exists>b s'. validate_tflite env p s = (Ok b, s') \<and>
     (b \<longleftrightarrow> (\<exists>w1 i0 w2 i w3 ind w4 outd w5 d rest sh dt.
           import_tensorflow env (world s) = (Inr (), w1) \<and>
           Interpreter env p w1 = (Inr i0, w2) \<and>
           allocate_tensors env i0 w2 = (Inr i, w3) \<and>
           get_input_details env i w3 = (Inr ind, w4) \<and>
           get_output_details env i w4 = (Inr outd, w5) \<and>
           ind = d # rest \<and> d ''shape'' = Some sh \<and> d ''dtype'' = Some dt)) \<and>
     (b \<or> (\<exists>e. last (stdout s') = cross_mark @ '' Model validation failed: '' @ exn_str e))"
proof -
  let ?s1 = "entered Validator (newline @ ''[3/3] Validating TFLite model...'') s"
  have w: "world ?s1 = world s" by (simp add: entered_def)
  from try_except_cases [OF validate_body_no_exit, of env p ?s1 validate_failed]
  show ?thesis
  proof (elim disjE exE conjE)
    fix x s'
    assume returned: "validate_body env p ?s1 = (Ok x, s')"
      "try_except (validate_body env p) validate_failed ?s1 = (Ok x, s')"
    from validate_body_true [OF returned(1)] returned(2) show ?thesis
      by (simp only: validate_unfold w) blast
  next
    fix e s'
    assume caught: "validate_body env p ?s1 = (Raise e, s')"
      "try_except (validate_body env p) validate_failed ?s1 = validate_failed e s'"
    have "\<not> (\<exists>w1 i0 w2 i w3 ind w4 outd w5 d rest sh dt.
           import_tensorflow env (world s) = (Inr (), w1) \<and>
           Interpreter env p w1 = (Inr i0, w2) \<and>
           allocate_tensors env i0 w2 = (Inr i, w3) \<and>
           get_input_details env i w3 = (Inr ind, w4) \<and>
           get_output_details env i w4 = (Inr outd, w5) \<and>
           ind = d # rest \<and> d ''shape'' = Some sh \<and> d ''dtype'' = Some dt)"
    proof
      assume "\<exists>w1 i0 w2 i w3 ind w4 outd w5 d rest sh dt.
           import_tensorflow env (world s) = (Inr (), w1) \<and>
           Interpreter env p w1 = (Inr i0, w2) \<and>
           allocate_tensors env i0 w2 = (Inr i, w3) \<and>
           get_input_details env i w3 = (Inr ind, w4) \<and>
           get_output_details env i w4 = (Inr outd, w5) \<and>
           ind = d # rest \<and> d ''shape'' = Some sh \<and> d ''dtype'' = Some dt"
      then obtain w1 i0 w2 i w3 w4 outd w5 d rest sh dt where
           "import_tensorflow env (world ?s1) = (Inr (), w1)"
           "Interpreter env p w1 = (Inr i0, w2)"
           "allocate_tensors env i0 w2 = (Inr i, w3)"
           "get_input_details env i w3 = (Inr (d # rest), w4)"
           "get_output_details env i w4 = (Inr outd, w5)"
           "d ''shape'' = Some sh" "d ''dtype'' = Some dt"
        unfolding w by blast
      from validate_body_runs [OF this] caught(1) show False by simp
    qed
    then have neg: "False \<longleftrightarrow> (\<exists>w1 i0 w2 i w3 ind w4 outd w5 d rest sh dt.
           import_tensorflow env (world s) = (Inr (), w1) \<and>
           Interpreter env p w1 = (Inr i0, w2) \<and>
           allocate_tensors env i0 w2 = (Inr i, w3) \<and>
           get_input_details env i w3 = (Inr ind, w4) \<and>
           get_output_details env i w4 = (Inr outd, w5) \<and>
           ind = d # rest \<and> d ''shape'' = Some sh \<and> d ''dtype'' = Some dt)"
      by simp
    let ?s2 = "s'\<lparr>stdout := stdout s' @ [cross_mark @ '' Model validation failed: '' @ exn_str e]\<rparr>"
    from caught(2) have res: "validate_tflite env p s = (Ok False, ?s2)"
      by (simp add: validate_unfold validate_failed_result)
    have rep: "False \<or> (\<exists>e'. last (stdout ?s2) = cross_mark @ '' Model validation failed: '' @ exn_str e')"
      by (intro disjI2 exI [of _ e]) simp
    from res neg rep show ?thesis
      by (intro exI [of _ False] exI [of _ ?s2] conjI)
  qed
qed

subsection \<open>Directories and the copy\<close>

lemma assets_dir_parts:
  "assets_dir proj = PurePath (anchor (Path proj)) (parts (Path proj) @ [''app'', ''src'', ''main'', ''assets''])"
  by (simp add: assets_dir_def truediv_def Path_def splitroot_def)

lemma target_path_parts:
  "target_path proj =
     PurePath (anchor (Path proj))
       (parts (Path proj) @ [''app'', ''src'', ''main'', ''assets'', ''yolo_plate_detector.tflite''])"
  by (simp add: target_path_def truediv_def assets_dir_parts Path_def splitroot_def)


lemma target_not_assets: "target_path proj \<noteq> assets_dir proj"
  by (simp add: target_path_parts assets_dir_parts)

lemma mkdir_from_existing:
  assumes "is_dir w (PurePath a (rev up))"
  shows "mkdir_from a up w = Inr w"
proof (cases up)
  case Nil
  then show ?thesis by simp
next
  case (Cons x up')
  from assms have "os_mkdir (PurePath a (rev up)) w =
      Inl (Exception ''FileExistsError'' ''[Errno 17] File exists'')"
    by (simp add: os_mkdir_def is_dir_def)
  with assms Cons show ?thesis
    by (simp del: rev.simps)
qed

lemma mkdir_existing: "is_dir w p \<Longrightarrow> mkdir_parents_exist_ok p w = Inr w"
  using mkdir_from_existing [of w "anchor p" "rev (parts p)"]
  by (simp add: mkdir_parents_exist_ok_def)

lemma os_mkdir_creates: "os_mkdir p w = Inr w' \<Longrightarrow> is_dir w' p"
  by (auto simp: os_mkdir_def is_dir_def lookup_def split: if_splits option.splits node.splits)

lemma mkdir_from_creates:
  "mkdir_from a up w = Inr w' \<Longrightarrow> is_dir w' (PurePath a (rev up))"
proof (cases up)
  case Nil
  then show ?thesis by (simp add: is_dir_def lookup_def)
next
  case (Cons x up')
  assume "mkdir_from a up w = Inr w'"
  with Cons show ?thesis
    by (auto simp: Let_def os_mkdir_creates split: sum.splits if_splits simp del: rev.simps)
qed

lemma mkdir_creates: "mkdir_parents_exist_ok p w = Inr w' \<Longrightarrow> is_dir w' p"
  using mkdir_from_creates [of "anchor p" "rev (parts p)" w w']
  by (simp add: mkdir_parents_exist_ok_def)

lemma os_mkdir_other:
  "os_mkdir p w = Inr w' \<Longrightarrow> q \<noteq> p \<Longrightarrow> lookup w' q = lookup w q"
  by (auto simp: os_mkdir_def lookup_def split: if_splits option.splits node.splits)

lemma mkdir_from_other:
  "mkdir_from a up w = Inr w' \<Longrightarrow> length up < length (parts q) \<Longrightarrow> lookup w' q = lookup w q"
proof (induction up arbitrary: w w')
  case Nil
  then show ?case by simp
next
  case (Cons x up)
  have ne: "q \<noteq> PurePath a (rev (x # up))"
    using Cons.prems(2) by auto
  have up: "length up < length (parts q)"
    using Cons.prems(2) by simp
  from Cons.prems(1) show ?case
    by (auto simp: Let_def split: sum.splits if_splits simp del: rev.simps
        dest!: os_mkdir_other [OF _ ne] Cons.IH [OF _ up])
qed

lemma mkdir_other:
  "mkdir_parents_exist_ok p w = Inr w' \<Longrightarrow> length (parts p) < length (parts q) \<Longrightarrow>
   lookup w' q = lookup w q"
  using mkdir_from_other [of "anchor p" "rev (parts p)" w w' q]
  by (simp add: mkdir_parents_exist_ok_def)

lemma mkdir_target_unchanged:
  "mkdir_parents_exist_ok (assets_dir proj) w = Inr w' \<Longrightarrow>
   lookup w' (target_path proj) = lookup w (target_path proj)"
  using mkdir_other [of "assets_dir proj" w w' "target_path proj"]
  by (simp add: target_path_parts assets_dir_parts)

lemma os_mkdir_read_only: "os_mkdir p w = Inr w' \<Longrightarrow> read_only w' = read_only w"
  by (auto simp: os_mkdir_def split: if_splits option.splits node.splits)

lemma mkdir_from_read_only: "mkdir_from a up w = Inr w' \<Longrightarrow> read_only w' = read_only w"
proof (induction up arbitrary: w w')
  case Nil
  then show ?case by simp
next
  case (Cons x up)
  from Cons.prems show ?case
    by (auto simp: Let_def split: sum.splits if_splits simp del: rev.simps
        dest!: os_mkdir_read_only Cons.IH)
qed

lemma no_file_at_top:
  "no_file_at w a up \<Longrightarrow> lookup w (PurePath a (rev up)) \<noteq> Some (File c)"
  by (cases up) (auto simp: lookup_def split: option.splits node.splits)

lemma mkdir_from_succeeds:
  "\<not> read_only w \<Longrightarrow> no_file_at w a up \<Longrightarrow> \<exists>w'. mkdir_from a up w = Inr w'"
proof (induction up arbitrary: w)
  case Nil
  then show ?case by simp
next
  case (Cons x up)
  let ?p = "PurePath a (rev (x # up))"
  have par: "parent ?p = PurePath a (rev up)"
    by (simp add: parent_def)
  from Cons.prems(2) have here: "\<And>c. lookup w ?p \<noteq> Some (File c)"
    and above: "no_file_at w a up"
    by (auto split: option.splits node.splits)
  show ?case
  proof (cases "lookup w ?p")
    case (Some n)
    with here have d: "lookup w ?p = Some Dir" by (cases n) auto
    then have "os_mkdir ?p w = Inl (Exception ''FileExistsError'' ''[Errno 17] File exists'')"
      by (simp add: os_mkdir_def)
    with d show ?thesis by (simp add: is_dir_def del: rev.simps)
  next
    case None
    show ?thesis
    proof (cases "lookup w (PurePath a (rev up))")
      case (Some n)
      with no_file_at_top [OF above] have "lookup w (PurePath a (rev up)) = Some Dir"
        by (cases n) auto
      with None Cons.prems(1) par have "\<exists>w'. os_mkdir ?p w = Inr w'"
        by (simp add: os_mkdir_def)
      then show ?thesis by (auto simp del: rev.simps)
    next
      case up_none: None
      with None par have first: "os_mkdir ?p w =
          Inl (Exception ''FileNotFoundError'' ''[Errno 2] No such file or directory'')"
        by (simp add: os_mkdir_def)
      from Cons.IH [OF Cons.prems(1) above] obtain w1 where w1: "mkdir_from a up w = Inr w1"
        by blast
      have "lookup w1 ?p = lookup w ?p"
        by (rule mkdir_from_other [OF w1]) simp
      with None have n1: "lookup w1 ?p = None" by simp
      from mkdir_from_creates [OF w1] have "lookup w1 (PurePath a (rev up)) = Some Dir"
        by (simp add: is_dir_def)
      moreover from mkdir_from_read_only [OF w1] Cons.prems(1) have "\<not> read_only w1" by simp
      ultimately have "\<exists>w2. os_mkdir ?p w1 = Inr w2"
        using n1 par by (simp add: os_mkdir_def)
      with first w1 show ?thesis by (auto simp del: rev.simps)
    qed
  qed
qed

lemma mkdir_succeeds:
  "\<not> read_only w \<Longrightarrow> unobstructed w p \<Longrightarrow> \<exists>w'. mkdir_parents_exist_ok p w = Inr w'"
  using mkdir_from_succeeds [of w "anchor p" "rev (parts p)"]
  by (simp add: mkdir_parents_exist_ok_def unobstructed_def)

lemma copy_unfold:
  "copy_to_android_assets t proj s =
     try_except (copy_body t proj) copy_failed (s\<lparr>trace := trace s @ [Invoke Installer]\<rparr>)"
  by (simp add: copy_to_android_assets_def pbind_def log_event_def)

lemma installer_mkdir_fails:
  "mkdir_parents_exist_ok (assets_dir proj) (world s) = Inl e \<Longrightarrow>
   copy_to_android_assets t proj s =
     (Ok False, s\<lparr>trace := trace s @ [Invoke Installer, Mkdir (assets_dir proj)],
                  stdout := stdout s @ [cross_mark @ '' Failed to copy to Android assets: '' @ exn_str e]\<rparr>)"
  by (simp add: copy_unfold copy_body_def copy_failed_def mkdir_def monad_defs)

lemma installer_copy_fails:
  "mkdir_parents_exist_ok (assets_dir proj) (world s) = Inr w1 \<Longrightarrow>
   shutil_copy t (target_path proj) w1 = Inl e \<Longrightarrow>
   copy_to_android_assets t proj s =
     (Ok False, s\<lparr>world := w1,
                  trace := trace s @ [Invoke Installer, Mkdir (assets_dir proj),
                                      ShutilCopy t (target_path proj)],
                  stdout := stdout s @ [cross_mark @ '' Failed to copy to Android assets: '' @ exn_str e]\<rparr>)"
  by (simp add: copy_unfold copy_body_def copy_failed_def mkdir_def copy_def monad_defs)

lemma installer_copies:
  "mkdir_parents_exist_ok (assets_dir proj) (world s) = Inr w1 \<Longrightarrow>
   shutil_copy t (target_path proj) w1 = Inr w2 \<Longrightarrow>
   copy_to_android_assets t proj s =
     (Ok True, s\<lparr>world := w2,
                 trace := trace s @ [Invoke Installer, Mkdir (assets_dir proj),
                                     ShutilCopy t (target_path proj)],
                 stdout := stdout s @ [newline @ check_mark @ '' Copied to Android assets: ''
                                         @ fspath (target_path proj)]\<rparr>)"
  by (simp add: copy_unfold copy_body_def copy_failed_def mkdir_def copy_def monad_defs)

lemma installer_trace:
  "\<exists>rest. trace (snd (copy_to_android_assets t proj s)) =
            trace s @ [Invoke Installer, Mkdir (assets_dir proj)] @ rest \<and>
          (rest = [] \<or> rest = [ShutilCopy t (target_path proj)])"
proof (cases "mkdir_parents_exist_ok (assets_dir proj) (world s)")
  case (Inl e)
  from installer_mkdir_fails [OF Inl] show ?thesis by simp
next
  case (Inr w1)
  show ?thesis
  proof (cases "shutil_copy t (target_path proj) w1")
    case (Inl e)
    from installer_copy_fails [OF Inr Inl] show ?thesis by simp
  next
    case (Inr w2)
    from installer_copies [OF \<open>mkdir_parents_exist_ok (assets_dir proj) (world s) = Inr w1\<close> Inr]
    show ?thesis by simp
  qed
qed

lemma installer_reaches_copy:
  assumes "mkdir_parents_exist_ok (assets_dir proj) (world s) = Inr w1"
  shows "ShutilCopy t (target_path proj) \<in> set (trace (snd (copy_to_android_assets t proj s)))"
proof (cases "shutil_copy t (target_path proj) w1")
  case (Inl e)
  from installer_copy_fails [OF assms Inl] show ?thesis by simp
next
  case (Inr w2)
  from installer_copies [OF assms Inr] show ?thesis by simp
qed

lemma shutil_copy_result:
  assumes "shutil_copy t dst w1 = Inr w2" and "\<not> is_dir w1 dst" and "parts dst \<noteq> []"
  shows "\<exists>c. lookup w2 dst = Some (File c) \<and> stat_str w2 t = Some (File c) \<and>
             (\<forall>q. q \<noteq> dst \<longrightarrow> lookup w2 q = lookup w1 q)"
  using assms
  by (auto simp: shutil_copy_def Let_def lookup_def stat_str_def split: if_splits option.splits node.splits)

lemma installer_success:
  assumes ok: "copy_to_android_assets t proj s = (Ok True, s')"
      and nd: "\<not> is_dir (world s) (target_path proj)"
  shows "is_dir (world s') (assets_dir proj) \<and>
         (\<exists>c. lookup (world s') (target_path proj) = Some (File c) \<and>
              stat_str (world s') t = Some (File c))"
proof (cases "mkdir_parents_exist_ok (assets_dir proj) (world s)")
  case (Inl e)
  from installer_mkdir_fails [OF Inl] ok show ?thesis by simp
next
  case (Inr w1)
  note mk = Inr
  show ?thesis
  proof (cases "shutil_copy t (target_path proj) w1")
    case (Inl e)
    from installer_copy_fails [OF mk Inl] ok show ?thesis by simp
  next
    case (Inr w2)
    from installer_copies [OF mk Inr] ok have w: "world s' = w2" by auto
    have d1: "is_dir w1 (assets_dir proj)" by (rule mkdir_creates [OF mk])
    have nd1: "\<not> is_dir w1 (target_path proj)"
      using nd mkdir_target_unchanged [OF mk] by (simp add: is_dir_def)
    have ne: "parts (target_path proj) \<noteq> []" by (simp add: target_path_parts)
    from shutil_copy_result [OF Inr nd1 ne] obtain c where
      c: "lookup w2 (target_path proj) = Some (File c)" "stat_str w2 t = Some (File c)"
      and other: "\<forall>q. q \<noteq> target_path proj \<longrightarrow> lookup w2 q = lookup w1 q"
      by blast
    from other d1 have "is_dir w2 (assets_dir proj)"
      using target_not_assets [of proj] by (metis is_dir_def)
    with c w show ?thesis by blast
  qed
qed

subsection \<open>The entry point\<close>

lemma main_missing:
  "\<not> path_exists w (weights a) \<Longrightarrow>
   main env a (initial w) =
     (Exit 1, \<lparr>world = w, trace = [OsPathExists (weights a)],
               stdout = [''Error: Weights file not found: '' @ weights a]\<rparr>)"
  by (simp add: main_def monad_defs os_path_exists_def initial_def)

lemma main_started:
  "path_exists w (weights a) \<Longrightarrow> main env a (initial w) = pipeline env a (started a w)"
  by (simp add: main_def pipeline_def monad_defs os_path_exists_def initial_def started_def banner_def)

lemma pipeline_export_exit:
  "export_to_onnx env (weights a) (os_path_dirname (output_arg a)) s = (Exit c, s2) \<Longrightarrow>
   pipeline env a s = (Exit c, s2)"
  by (simp add: pipeline_def pbind_def)

lemma pipeline_convert_false:
  "export_to_onnx env (weights a) (os_path_dirname (output_arg a)) s = (Ok onnx_path, s2) \<Longrightarrow>
   convert_to_tflite env onnx_path (output_arg a) s2 = (Ok False, s3) \<Longrightarrow>
   pipeline env a s = (Exit 1, s3)"
  by (simp add: pipeline_def pbind_def sys_exit_def)

lemma pipeline_validate_false:
  "export_to_onnx env (weights a) (os_path_dirname (output_arg a)) s = (Ok onnx_path, s2) \<Longrightarrow>
   convert_to_tflite env onnx_path (output_arg a) s2 = (Ok True, s3) \<Longrightarrow>
   validate_tflite env (output_arg a) s3 = (Ok False, s4) \<Longrightarrow>
   pipeline env a s = (Exit 1, s4)"
  by (simp add: pipeline_def pbind_def sys_exit_def preturn_def)

lemma pipeline_no_project:
  "export_to_onnx env (weights a) (os_path_dirname (output_arg a)) s = (Ok onnx_path, s2) \<Longrightarrow>
   convert_to_tflite env onnx_path (output_arg a) s2 = (Ok True, s3) \<Longrightarrow>
   validate_tflite env (output_arg a) s3 = (Ok True, s4) \<Longrightarrow>
   \<not> truthy (android_project a) \<Longrightarrow>
   pipeline env a s = next_steps (output_arg a) s4"
  by (simp add: pipeline_def pbind_def sys_exit_def preturn_def)

lemma pipeline_project:
  "export_to_onnx env (weights a) (os_path_dirname (output_arg a)) s = (Ok onnx_path, s2) \<Longrightarrow>
   convert_to_tflite env onnx_path (output_arg a) s2 = (Ok True, s3) \<Longrightarrow>
   validate_tflite env (output_arg a) s3 = (Ok True, s4) \<Longrightarrow>
   truthy (android_project a) \<Longrightarrow>
   copy_to_android_assets (output_arg a) (the (android_project a)) s4 = (Ok copied, s5) \<Longrightarrow>
   pipeline env a s = next_steps (output_arg a) s5"
  by (simp add: pipeline_def pbind_def sys_exit_def preturn_def)

lemma stages_started: "stages_invoked (started a w) = []"
  by (simp add: stages_invoked_def started_def)

lemma pipeline_success:
  assumes e: "export_to_onnx env (weights a) (os_path_dirname (output_arg a)) s = (Ok onnx_path, s2)"
      and c: "convert_to_tflite env onnx_path (output_arg a) s2 = (Ok True, s3)"
      and v: "validate_tflite env (output_arg a) s3 = (Ok True, s4)"
  shows "fst (pipeline env a s) = Ok () \<and>
         stages_invoked (snd (pipeline env a s)) =
           stages_invoked s @ [Exporter, Converter, Validator] @ (if truthy (android_project a) then [Installer] else [])"
proof -
  have s2: "stages_invoked s2 = stages_invoked s @ [Exporter]"
    using export_stages [of env "weights a" "os_path_dirname (output_arg a)" s] e by simp
  have s3: "stages_invoked s3 = stages_invoked s2 @ [Converter]"
    using convert_stages [of env onnx_path "output_arg a" s2] c by simp
  have s4: "stages_invoked s4 = stages_invoked s3 @ [Validator]"
    using validate_stages [of env "output_arg a" s3] v by simp
  show ?thesis
  proof (cases "truthy (android_project a)")
    case False
    from pipeline_no_project [OF e c v False] s2 s3 s4 False
    show ?thesis
      by (simp add: next_steps_result)
  next
    case True
    obtain copied s5 where k: "copy_to_android_assets (output_arg a) (the (android_project a)) s4 = (Ok copied, s5)"
      using copy_returns [of "output_arg a" "the (android_project a)"] unfolding returns_def by blast
    have s5: "stages_invoked s5 = stages_invoked s4 @ [Installer]"
      using copy_stages [of "output_arg a" "the (android_project a)" s4] k by simp
    from pipeline_project [OF e c v True k] s2 s3 s4 s5 True
    show ?thesis
      by (simp add: next_steps_result)
  qed
qed

lemma truthy_iff: "truthy x \<longleftrightarrow> (\<exists>p. x = Some p \<and> p \<noteq> [])"
  by (cases x) (simp_all add: truthy_def)

lemma pipeline_after_export:
  assumes e: "export_to_onnx env (weights a) (os_path_dirname (output_arg a)) s = (Ok onnx_path, s2)"
  shows "\<exists>rest. trace (snd (pipeline env a s)) =
           trace s2 @ [Invoke Converter, SubprocessRun (convert_cmd onnx_path (output_arg a))] @ rest"
proof -
  let ?k = "\<lambda>converted.
     pbind (if \<not> converted then sys_exit 1 else preturn ()) (\<lambda>u.
     pbind (validate_tflite env (output_arg a)) (\<lambda>valid.
     pbind (if \<not> valid then sys_exit 1 else preturn ()) (\<lambda>u.
     pbind (if truthy (android_project a) then
              pbind (copy_to_android_assets (output_arg a) (the (android_project a))) (\<lambda>copied.
              preturn ())
            else preturn ()) (\<lambda>u.
     next_steps (output_arg a)))))"
  have k: "\<And>b. extends (?k b)"
    by (intro extends_pbind extends_if extends_basic extends_stages)
  have "pipeline env a s = pbind (convert_to_tflite env onnx_path (output_arg a)) ?k s2"
    using e by (simp add: pipeline_def pbind_def)
  moreover obtain rest1 where
    "trace (snd (pbind (convert_to_tflite env onnx_path (output_arg a)) ?k s2)) =
       trace (snd (convert_to_tflite env onnx_path (output_arg a) s2)) @ rest1"
    using pbind_extends [of ?k, OF k] by blast
  moreover obtain rest2 where
    "trace (snd (convert_to_tflite env onnx_path (output_arg a) s2)) =
       trace s2 @ [Invoke Converter, SubprocessRun (convert_cmd onnx_path (output_arg a))] @ rest2"
    using convert_trace by blast
  ultimately show ?thesis by simp
qed

lemma main_stages_prefix:
  "stages_invoked (snd (main env a (initial w))) \<in>
     {[], [Exporter], [Exporter, Converter], [Exporter, Converter, Validator],
      [Exporter, Converter, Validator, Installer]}"
proof (cases "path_exists w (weights a)")
  case False
  from main_missing [OF False, of env] show ?thesis
    by (simp add: stages_invoked_def)
next
  case True
  let ?s = "started a w"
  let ?od = "os_path_dirname (output_arg a)"
  have m: "main env a (initial w) = pipeline env a ?s"
    by (rule main_started [OF True])
  have st2: "stages_invoked (snd (export_to_onnx env (weights a) ?od ?s)) = [Exporter]"
    by (simp add: export_stages stages_started)
  from export_shape [of env "weights a" ?od ?s] show ?thesis
  proof (elim disjE exE)
    fix s2 assume e: "export_to_onnx env (weights a) ?od ?s = (Exit 1, s2)"
    from pipeline_export_exit [OF e] st2 e m show ?thesis by simp
  next
    fix onnx_path s2 assume e: "export_to_onnx env (weights a) ?od ?s = (Ok onnx_path, s2)"
    with st2 have s2: "stages_invoked s2 = [Exporter]" by simp
    obtain converted s3 where c: "convert_to_tflite env onnx_path (output_arg a) s2 = (Ok converted, s3)"
      using convert_returns [of env onnx_path "output_arg a"] unfolding returns_def by blast
    have s3: "stages_invoked s3 = [Exporter, Converter]"
      using convert_stages [of env onnx_path "output_arg a" s2] c s2 by simp
    show ?thesis
    proof (cases converted)
      case False
      with c have "convert_to_tflite env onnx_path (output_arg a) s2 = (Ok False, s3)" by simp
      from pipeline_convert_false [OF e this] s3 m show ?thesis by simp
    next
      case True
      with c have c': "convert_to_tflite env onnx_path (output_arg a) s2 = (Ok True, s3)" by simp
      obtain valid s4 where v: "validate_tflite env (output_arg a) s3 = (Ok valid, s4)"
        using validate_returns [of env "output_arg a"] unfolding returns_def by blast
      have s4: "stages_invoked s4 = [Exporter, Converter, Validator]"
        using validate_stages [of env "output_arg a" s3] v s3 by simp
      show ?thesis
      proof (cases valid)
        case False
        with v have "validate_tflite env (output_arg a) s3 = (Ok False, s4)" by simp
        from pipeline_validate_false [OF e c' this] s4 m show ?thesis by simp
      next
        case True
        with v have "validate_tflite env (output_arg a) s3 = (Ok True, s4)" by simp
        from pipeline_success [OF e c' this] m show ?thesis
          by (simp add: stages_started)
      qed
    qed
  qed
qed

lemma main_export_exit:
  "path_exists w (weights a) \<Longrightarrow>
   export_to_onnx env (weights a) (os_path_dirname (output_arg a)) (started a w) = (Exit 1, s2) \<Longrightarrow>
   main env a (initial w) = (Exit 1, s2) \<and> exit_status (main env a (initial w)) = 1"
  using main_started [of w a env] pipeline_export_exit [of env a "started a w" 1 s2]
  by (simp add: exit_status_def)

lemma main_convert_false:
  assumes "path_exists w (weights a)"
      and e: "export_to_onnx env (weights a) (os_path_dirname (output_arg a)) (started a w) = (Ok onnx_path, s2)"
      and c: "fst (convert_to_tflite env onnx_path (output_arg a) s2) = Ok False"
  shows "exit_status (main env a (initial w)) = 1 \<and>
         stages_invoked (snd (main env a (initial w))) = [Exporter, Converter]"
proof -
  obtain s3 where c': "convert_to_tflite env onnx_path (output_arg a) s2 = (Ok False, s3)"
    using c by (cases "convert_to_tflite env onnx_path (output_arg a) s2") simp
  have "stages_invoked s2 = [Exporter]"
    using export_stages [of env "weights a" "os_path_dirname (output_arg a)" "started a w"] e
    by (simp add: stages_started)
  then have "stages_invoked s3 = [Exporter, Converter]"
    using convert_stages [of env onnx_path "output_arg a" s2] c' by simp
  with pipeline_convert_false [OF e c'] main_started [OF assms(1), of env] show ?thesis
    by (simp add: exit_status_def)
qed

lemma main_validate_false:
  assumes "path_exists w (weights a)"
      and e: "export_to_onnx env (weights a) (os_path_dirname (output_arg a)) (started a w) = (Ok onnx_path, s2)"
      and c: "convert_to_tflite env onnx_path (output_arg a) s2 = (Ok True, s3)"
      and v: "fst (validate_tflite env (output_arg a) s3) = Ok False"
  shows "exit_status (main env a (initial w)) = 1 \<and>
         stages_invoked (snd (main env a (initial w))) = [Exporter, Converter, Validator]"
proof -
  obtain s4 where v': "validate_tflite env (output_arg a) s3 = (Ok False, s4)"
    using v by (cases "validate_tflite env (output_arg a) s3") simp
  have "stages_invoked s2 = [Exporter]"
    using export_stages [of env "weights a" "os_path_dirname (output_arg a)" "started a w"] e
    by (simp add: stages_started)
  then have "stages_invoked s3 = [Exporter, Converter]"
    using convert_stages [of env onnx_path "output_arg a" s2] c by simp
  then have "stages_invoked s4 = [Exporter, Converter, Validator]"
    using validate_stages [of env "output_arg a" s3] v' by simp
  with pipeline_validate_false [OF e c v'] main_started [OF assms(1), of env] show ?thesis
    by (simp add: exit_status_def)
qed

subsection \<open>Evaluating the concrete runs\<close>

lemmas eval_defs = monad_defs demo_env_def demo_world_def blocked_world_def demo_args_def started_def initial_def
  path_exists_def stat_str_def lookup_def Path_def splitroot_def os_path_exists_def os_path_getsize_def getsize_def
  export_to_onnx_def export_body_def export_failed_def
  convert_to_tflite_def convert_body_def convert_failed_def convert_cmd_def
  validate_tflite_def validate_body_def validate_failed_def first_item_def getitem_def
  copy_to_android_assets_def copy_body_def copy_failed_def mkdir_def copy_def
  assets_dir_def target_path_def truediv_def mkdir_parents_exist_ok_def os_mkdir_def parent_def
  shutil_copy_def is_dir_def os_path_basename_def fspath_def

lemmas eval_defs2 = eval_defs failing_converter_env_def silent_converter_env_def no_inputs_env_def boom_def
  no_ultralytics_env_def bad_checkpoint_env_def failing_export_env_def empty_world_def installed_world_def

lemma demo_weights: "path_exists demo_world (weights (demo_args proj))"
  by (simp add: eval_defs)

lemma demo_export:
  "export_to_onnx demo_env (weights (demo_args proj)) od s = (Ok ''best.onnx'', snd (export_to_onnx demo_env (weights (demo_args proj)) od s))"
  by (simp add: eval_defs)

lemma demo_convert:
  "convert_to_tflite demo_env onnx (output_arg (demo_args proj)) s = (Ok True, snd (convert_to_tflite demo_env onnx (output_arg (demo_args proj)) s))"
  by (simp add: eval_defs)

lemma demo_validate:
  "validate_tflite demo_env p s = (Ok True, snd (validate_tflite demo_env p s))"
  by (simp add: eval_defs)

section \<open>The claims\<close>

text \<open>
  In the statements below a run starts from \<open>initial w\<close>: nothing called, nothing
  printed, the file system \<open>w\<close>. "Stages 1 to 3 succeed" is written out as: the weights
  file exists, the exporter returns a path from the state \<open>started a w\<close>, the converter
  returns \<open>True\<close> from the state the exporter left, the validator returns \<open>True\<close> from
  the state the converter left.
\<close>

subsection \<open>C1: a successful pipeline exits 0; when the copy is attempted\<close>

text \<open>
  Claim C1. When stages 1 to 3 all succeed the process exits with code 0, whether or not
  a project path was given and whether or not the copy into the project succeeds. The
  installer is invoked exactly when the project option holds a non-empty string: the
  guard in \<open>main\<close> is \<open>if args.android_project:\<close>, which is false for an absent option and
  for the empty string alike. So "attempted if and only if the project path is given"
  holds with "given" read as "given and not empty"; for \<open>--android-project ''\<close> no copy
  is attempted.
\<close>

theorem success_exits_zero:
  assumes "path_exists w (weights a)"
      and "export_to_onnx env (weights a) (os_path_dirname (output_arg a)) (started a w) = (Ok onnx_path, s2)"
      and "convert_to_tflite env onnx_path (output_arg a) s2 = (Ok True, s3)"
      and "validate_tflite env (output_arg a) s3 = (Ok True, s4)"
  shows "exit_status (main env a (initial w)) = 0 \<and>
         (Installer \<in> set (stages_invoked (snd (main env a (initial w)))) \<longleftrightarrow>
            (\<exists>p. android_project a = Some p \<and> p \<noteq> ''''))"
  using pipeline_success [OF assms(2-4)] main_started [OF assms(1), of env]
  by (simp add: exit_status_def stages_started truthy_iff)

text \<open>
  An instance with \<open>--android-project proj\<close> where \<open>proj/app\<close> is a regular file: the
  installer is invoked, it fails, and the process still exits 0.
\<close>

theorem success_exits_zero_witness:
  "exit_status (main demo_env (demo_args (Some ''proj'')) (initial blocked_world)) = 0 \<and>
   Installer \<in> set (stages_invoked (snd (main demo_env (demo_args (Some ''proj'')) (initial blocked_world)))) \<and>
   fst (copy_to_android_assets ''model.tflite'' ''proj'' (initial blocked_world)) = Ok False"
proof -
  let ?a = "demo_args (Some ''proj'')"
  let ?w = "blocked_world"
  let ?e = "export_to_onnx demo_env (weights ?a) (os_path_dirname (output_arg ?a)) (started ?a ?w)"
  let ?c = "convert_to_tflite demo_env ''best.onnx'' (output_arg ?a) (snd ?e)"
  let ?v = "validate_tflite demo_env (output_arg ?a) (snd ?c)"
  have 1: "path_exists ?w (weights ?a)" by (simp add: eval_defs)
  have 2: "?e = (Ok ''best.onnx'', snd ?e)" by (rule demo_export)
  have 3: "?c = (Ok True, snd ?c)" by (rule demo_convert)
  have 4: "?v = (Ok True, snd ?v)" by (rule demo_validate)
  have 5: "fst (copy_to_android_assets ''model.tflite'' ''proj'' (initial blocked_world)) = Ok False"
    by (simp add: eval_defs)
  from success_exits_zero [OF 1 2 3 4] 5 show ?thesis
    by (simp add: demo_args_def)
qed

text \<open>
  The statement with "given" read literally fails: with the empty string as project path
  the option is given, stages 1 to 3 succeed, the process exits 0, and the installer is
  not invoked.
\<close>

theorem copy_iff_project_given_counterexample:
  "android_project (demo_args (Some '''')) = Some '''' \<and>
   path_exists demo_world (weights (demo_args (Some ''''))) \<and>
   fst (export_to_onnx demo_env (weights (demo_args (Some ''''))) (os_path_dirname (output_arg (demo_args (Some ''''))))
          (started (demo_args (Some '''')) demo_world)) = Ok ''best.onnx'' \<and>
   fst (convert_to_tflite demo_env ''best.onnx'' (output_arg (demo_args (Some '''')))
          (snd (export_to_onnx demo_env (weights (demo_args (Some ''''))) (os_path_dirname (output_arg (demo_args (Some ''''))))
                 (started (demo_args (Some '''')) demo_world)))) = Ok True \<and>
   fst (validate_tflite demo_env (output_arg (demo_args (Some '''')))
          (snd (convert_to_tflite demo_env ''best.onnx'' (output_arg (demo_args (Some '''')))
            (snd (export_to_onnx demo_env (weights (demo_args (Some ''''))) (os_path_dirname (output_arg (demo_args (Some ''''))))
                 (started (demo_args (Some '''')) demo_world)))))) = Ok True \<and>
   exit_status (main demo_env (demo_args (Some '''')) (initial demo_world)) = 0 \<and>
   Installer \<notin> set (stages_invoked (snd (main demo_env (demo_args (Some '''')) (initial demo_world))))"
proof -
  let ?a = "demo_args (Some '''')"
  let ?w = "demo_world"
  let ?e = "export_to_onnx demo_env (weights ?a) (os_path_dirname (output_arg ?a)) (started ?a ?w)"
  let ?c = "convert_to_tflite demo_env ''best.onnx'' (output_arg ?a) (snd ?e)"
  let ?v = "validate_tflite demo_env (output_arg ?a) (snd ?c)"
  have 1: "path_exists ?w (weights ?a)" by (rule demo_weights)
  have 2: "?e = (Ok ''best.onnx'', snd ?e)" by (rule demo_export)
  have 3: "?c = (Ok True, snd ?c)" by (rule demo_convert)
  have 4: "?v = (Ok True, snd ?v)" by (rule demo_validate)
  have 5: "\<not> truthy (android_project ?a)" by (simp add: demo_args_def truthy_def)
  have 6: "android_project ?a = Some ''''" by (simp add: demo_args_def)
  from pipeline_success [OF 2 3 4] main_started [OF 1, of demo_env] 5
  have "exit_status (main demo_env ?a (initial ?w)) = 0 \<and>
        Installer \<notin> set (stages_invoked (snd (main demo_env ?a (initial ?w))))"
    by (simp add: exit_status_def stages_started)
  with 1 2 3 4 6 show ?thesis
    by (metis fst_conv)
qed

subsection \<open>C2: when the converter reports success\<close>

text \<open>
  Claim C2. The converter always returns a boolean, and it returns \<open>True\<close> exactly when
  the conversion subprocess returned with exit status 0 and \<open>os.path.exists\<close> holds of
  the requested output path in the file system the subprocess left (a subprocess that
  could not be started counts as not having exited with status 0). In particular an
  exit status of 0 with nothing at the output path gives \<open>False\<close>.
\<close>

theorem converter_success_iff:
  "\<exists>b s'. convert_to_tflite env onnx_path tflite_path s = (Ok b, s') \<and>
     (b \<longleftrightarrow> (\<exists>r w'. subprocess_run env (convert_cmd onnx_path tflite_path) (world s) = (Inr r, w') \<and>
                    returncode r = 0 \<and> path_exists w' tflite_path)) \<and>
     world s' = snd (subprocess_run env (convert_cmd onnx_path tflite_path) (world s)) \<and>
     (\<forall>r w'. subprocess_run env (convert_cmd onnx_path tflite_path) (world s) = (Inr r, w') \<and>
             returncode r = 0 \<and> \<not> path_exists w' tflite_path \<longrightarrow> b = False)"
  by (auto simp add: convert_to_tflite_def convert_body_def convert_failed_def monad_defs
        os_path_exists_def os_path_getsize_def getsize_def path_exists_def Let_def
      split: prod.splits sum.splits result.splits option.splits node.splits)

text \<open>An instance: a converter that exits with status 0 and writes nothing.\<close>

theorem converter_success_iff_witness:
  "fst (convert_to_tflite silent_converter_env ''best.onnx'' ''model.tflite'' (initial demo_world)) = Ok False \<and>
   \<not> path_exists demo_world ''model.tflite''"
proof -
  let ?s = "initial demo_world"
  let ?r = "\<lparr>returncode = 0, stderr = ''''\<rparr>"
  have run: "subprocess_run silent_converter_env (convert_cmd ''best.onnx'' ''model.tflite'') (world ?s) =
               (Inr ?r, demo_world)"
    by (simp add: silent_converter_env_def initial_def)
  have zero: "returncode ?r = 0" by simp
  have missing: "\<not> path_exists demo_world ''model.tflite''"
    by (simp add: eval_defs2)
  from converter_success_iff [of silent_converter_env "''best.onnx''" "''model.tflite''" ?s]
  obtain b s' where
    res: "convert_to_tflite silent_converter_env ''best.onnx'' ''model.tflite'' ?s = (Ok b, s')"
    and part: "\<forall>r w'. subprocess_run silent_converter_env (convert_cmd ''best.onnx'' ''model.tflite'') (world ?s) = (Inr r, w') \<and>
             returncode r = 0 \<and> \<not> path_exists w' ''model.tflite'' \<longrightarrow> b = False"
    by blast
  from part run zero missing have "b = False" by blast
  with res missing show ?thesis by simp
qed

subsection \<open>C3: the order of the stages and fail-fast\<close>

text \<open>
  Claim C3. In every run the stages entered are an initial part of exporter, converter,
  validator, installer, in that order. If the converter returns \<open>False\<close> (for instance
  because the external tool exits with a non-zero status) the process exits with status
  1 and the validator and the installer are never entered; if the validator returns
  \<open>False\<close> the process exits with status 1 and the installer is never entered.
\<close>

theorem stages_in_order_fail_fast:
  "stages_invoked (snd (main env a (initial w))) \<in>
     {[], [Exporter], [Exporter, Converter], [Exporter, Converter, Validator],
      [Exporter, Converter, Validator, Installer]} \<and>
   (path_exists w (weights a) \<and>
    export_to_onnx env (weights a) (os_path_dirname (output_arg a)) (started a w) = (Ok onnx_path, s2) \<and>
    fst (convert_to_tflite env onnx_path (output_arg a) s2) = Ok False \<longrightarrow>
      exit_status (main env a (initial w)) = 1 \<and>
      stages_invoked (snd (main env a (initial w))) = [Exporter, Converter]) \<and>
   (path_exists w (weights a) \<and>
    export_to_onnx env (weights a) (os_path_dirname (output_arg a)) (started a w) = (Ok onnx_path, s2) \<and>
    subprocess_run env (convert_cmd onnx_path (output_arg a)) (world s2) = (Inr r, w') \<and>
    returncode r \<noteq> 0 \<longrightarrow>
      exit_status (main env a (initial w)) = 1 \<and>
      stages_invoked (snd (main env a (initial w))) = [Exporter, Converter]) \<and>
   (path_exists w (weights a) \<and>
    export_to_onnx env (weights a) (os_path_dirname (output_arg a)) (started a w) = (Ok onnx_path, s2) \<and>
    convert_to_tflite env onnx_path (output_arg a) s2 = (Ok True, s3) \<and>
    fst (validate_tflite env (output_arg a) s3) = Ok False \<longrightarrow>
      exit_status (main env a (initial w)) = 1 \<and>
      stages_invoked (snd (main env a (initial w))) = [Exporter, Converter, Validator])"
  using main_stages_prefix [of env a w] main_convert_false [of w a env onnx_path s2]
    main_validate_false [of w a env onnx_path s2 s3]
    convert_nonzero [of env onnx_path "output_arg a" s2 r w']
  by blast

text \<open>Instances: a converter that exits with status 1, and a model with no input tensor.\<close>

theorem stages_in_order_fail_fast_witness:
  "exit_status (main failing_converter_env (demo_args (Some ''proj'')) (initial demo_world)) = 1 \<and>
   stages_invoked (snd (main failing_converter_env (demo_args (Some ''proj'')) (initial demo_world))) =
     [Exporter, Converter] \<and>
   exit_status (main no_inputs_env (demo_args (Some ''proj'')) (initial demo_world)) = 1 \<and>
   stages_invoked (snd (main no_inputs_env (demo_args (Some ''proj'')) (initial demo_world))) =
     [Exporter, Converter, Validator]"
proof -
  let ?a = "demo_args (Some ''proj'')"
  let ?w = "demo_world"
  let ?od = "os_path_dirname (output_arg ?a)"
  let ?e1 = "export_to_onnx failing_converter_env (weights ?a) ?od (started ?a ?w)"
  let ?e2 = "export_to_onnx no_inputs_env (weights ?a) ?od (started ?a ?w)"
  let ?c2 = "convert_to_tflite no_inputs_env ''best.onnx'' (output_arg ?a) (snd ?e2)"
  have 1: "path_exists ?w (weights ?a)" by (rule demo_weights)
  have e1: "?e1 = (Ok ''best.onnx'', snd ?e1)" by (simp add: eval_defs2)
  have c1: "fst (convert_to_tflite failing_converter_env ''best.onnx'' (output_arg ?a) (snd ?e1)) = Ok False"
    by (simp add: eval_defs2)
  have r1: "subprocess_run failing_converter_env (convert_cmd ''best.onnx'' (output_arg ?a)) (world (snd ?e1)) =
              (Inr \<lparr>returncode = 1, stderr = ''unsupported op''\<rparr>, world (snd ?e1))"
    by (simp add: failing_converter_env_def)
  have n1: "returncode \<lparr>returncode = 1, stderr = ''unsupported op''\<rparr> \<noteq> 0" by simp
  have e2: "?e2 = (Ok ''best.onnx'', snd ?e2)" by (simp add: eval_defs2)
  have c2: "?c2 = (Ok True, snd ?c2)" by (simp add: eval_defs2)
  have v2: "fst (validate_tflite no_inputs_env (output_arg ?a) (snd ?c2)) = Ok False"
    by (simp add: eval_defs2)
  from stages_in_order_fail_fast [of failing_converter_env ?a ?w "''best.onnx''" "snd ?e1"
      "\<lparr>returncode = 1, stderr = ''unsupported op''\<rparr>" "world (snd ?e1)"] 1 e1 c1 r1 n1
  have a: "exit_status (main failing_converter_env ?a (initial ?w)) = 1 \<and>
           stages_invoked (snd (main failing_converter_env ?a (initial ?w))) = [Exporter, Converter]"
    by blast
  from stages_in_order_fail_fast [of no_inputs_env ?a ?w "''best.onnx''" "snd ?e2" _ _ "snd ?c2"] 1 e2 c2 v2
  have b: "exit_status (main no_inputs_env ?a (initial ?w)) = 1 \<and>
           stages_invoked (snd (main no_inputs_env ?a (initial ?w))) = [Exporter, Converter, Validator]"
    by blast
  from a b show ?thesis by simp
qed

subsection \<open>C4: a missing weights file\<close>

text \<open>
  Claim C4. If nothing exists at the path given as \<open>--weights\<close>, the process exits with
  status 1, and the only call it has made is the existence check itself: no exporter, no
  subprocess, no other external call, and the file system is unchanged.
\<close>

theorem missing_weights_exit:
  assumes "\<not> path_exists w (weights a)"
  shows "exit_status (main env a (initial w)) = 1 \<and>
         trace (snd (main env a (initial w))) = [OsPathExists (weights a)] \<and>
         world (snd (main env a (initial w))) = w"
  using main_missing [OF assms, of env] by (simp add: exit_status_def)

text \<open>An instance: the empty file system.\<close>

theorem missing_weights_exit_witness:
  "\<not> path_exists empty_world ''best.pt'' \<and>
   exit_status (main demo_env (demo_args (Some ''proj'')) (initial empty_world)) = 1 \<and>
   trace (snd (main demo_env (demo_args (Some ''proj'')) (initial empty_world))) = [OsPathExists ''best.pt'']"
proof -
  have 1: "\<not> path_exists empty_world (weights (demo_args (Some ''proj'')))"
    by (simp add: eval_defs2)
  from missing_weights_exit [OF 1, of demo_env] 1 show ?thesis
    by (simp add: demo_args_def)
qed

subsection \<open>C5: exceptions in the exporter\<close>

text \<open>
  Claim C5. Whichever of the exporter's external steps raises (importing the library,
  loading the checkpoint, exporting it), the exception is caught, the line
  "ONNX export failed:" with the text of the exception is printed, and the function
  leaves through \<open>sys.exit(1)\<close>; each step has been called once and none is called
  again. The exporter never lets an exception through, and it returns a value only when
  all three steps succeeded, the value being what the export call returned: there is no
  failure value. When the exporter leaves through \<open>sys.exit(1)\<close> so does \<open>main\<close>, in
  the same state: the process ends there with status 1.
\<close>

theorem exporter_exception_exits:
  "(import_ultralytics env (world s) = (Inl e, w1) \<longrightarrow>
      export_to_onnx env wp od s =
        (Exit 1, s\<lparr>world := w1,
                   trace := trace s @ [Invoke Exporter, Import ''ultralytics''],
                   stdout := stdout s @ [newline @ ''[1/3] Exporting '' @ wp @ '' to ONNX...'',
                                         cross_mark @ '' ONNX export failed: '' @ exn_str e]\<rparr>)) \<and>
   (import_ultralytics env (world s) = (Inr (), w1) \<and> YOLO env wp w1 = (Inl e, w2) \<longrightarrow>
      export_to_onnx env wp od s =
        (Exit 1, s\<lparr>world := w2,
                   trace := trace s @ [Invoke Exporter, Import ''ultralytics'', YoloLoad wp],
                   stdout := stdout s @ [newline @ ''[1/3] Exporting '' @ wp @ '' to ONNX...'',
                                         cross_mark @ '' ONNX export failed: '' @ exn_str e]\<rparr>)) \<and>
   (import_ultralytics env (world s) = (Inr (), w1) \<and> YOLO env wp w1 = (Inr model, w2) \<and>
    model_export env model ''onnx'' 640 w2 = (Inl e, w3) \<longrightarrow>
      export_to_onnx env wp od s =
        (Exit 1, s\<lparr>world := w3,
                   trace := trace s @ [Invoke Exporter, Import ''ultralytics'', YoloLoad wp,
                                       ModelExport ''onnx'' 640],
                   stdout := stdout s @ [newline @ ''[1/3] Exporting '' @ wp @ '' to ONNX...'',
                                         cross_mark @ '' ONNX export failed: '' @ exn_str e]\<rparr>)) \<and>
   (\<forall>e'. fst (export_to_onnx env wp od s) \<noteq> Raise e') \<and>
   (\<forall>p. fst (export_to_onnx env wp od s) = Ok p \<longrightarrow>
      (\<exists>w1 model w2 w3. import_ultralytics env (world s) = (Inr (), w1) \<and>
         YOLO env wp w1 = (Inr model, w2) \<and> model_export env model ''onnx'' 640 w2 = (Inr p, w3))) \<and>
   (path_exists w (weights a) \<and>
    export_to_onnx env (weights a) (os_path_dirname (output_arg a)) (started a w) = (Exit 1, sx) \<longrightarrow>
      main env a (initial w) = (Exit 1, sx) \<and> exit_status (main env a (initial w)) = 1)"
  using export_import_raises [of env s e w1 wp od] export_load_raises [of env s w1 wp e w2 od]
    export_export_raises [of env s w1 wp model w2 e w3 od] export_never_raises [of env wp od s]
    export_ok_only_on_success [of env wp od s] main_export_exit [of w a env sx]
  by blast

text \<open>Instances: each of the three steps failing in turn, a run in which none fails, and
  \<open>main\<close> ending with the failed export as its last call.\<close>

theorem exporter_exception_exits_witness:
  "fst (export_to_onnx no_ultralytics_env ''best.pt'' ''out'' (initial demo_world)) = Exit 1 \<and>
   fst (export_to_onnx bad_checkpoint_env ''best.pt'' ''out'' (initial demo_world)) = Exit 1 \<and>
   fst (export_to_onnx failing_export_env ''best.pt'' ''out'' (initial demo_world)) = Exit 1 \<and>
   stdout (snd (export_to_onnx failing_export_env ''best.pt'' ''out'' (initial demo_world))) =
     [newline @ ''[1/3] Exporting best.pt to ONNX...'', cross_mark @ '' ONNX export failed: boom''] \<and>
   fst (export_to_onnx demo_env ''best.pt'' ''out'' (initial demo_world)) = Ok ''best.onnx'' \<and>
   exit_status (main failing_export_env (demo_args None) (initial demo_world)) = 1 \<and>
   trace (snd (main failing_export_env (demo_args None) (initial demo_world))) =
     [OsPathExists ''best.pt'', Invoke Exporter, Import ''ultralytics'', YoloLoad ''best.pt'',
      ModelExport ''onnx'' 640]"
proof -
  let ?s = "initial demo_world"
  have i1: "import_ultralytics no_ultralytics_env (world ?s) = (Inl boom, world ?s)"
    by (simp add: no_ultralytics_env_def)
  have i2: "import_ultralytics bad_checkpoint_env (world ?s) = (Inr (), world ?s)"
    by (simp add: bad_checkpoint_env_def demo_env_def)
  have y2: "YOLO bad_checkpoint_env ''best.pt'' (world ?s) = (Inl boom, world ?s)"
    by (simp add: bad_checkpoint_env_def)
  have i3: "import_ultralytics failing_export_env (world ?s) = (Inr (), world ?s)"
    by (simp add: failing_export_env_def demo_env_def)
  have y3: "YOLO failing_export_env ''best.pt'' (world ?s) = (Inr (), world ?s)"
    by (simp add: failing_export_env_def demo_env_def)
  have x3: "model_export failing_export_env () ''onnx'' 640 (world ?s) = (Inl boom, world ?s)"
    by (simp add: failing_export_env_def)
  have ok: "fst (export_to_onnx demo_env ''best.pt'' ''out'' ?s) = Ok ''best.onnx''"
    by (simp add: eval_defs2)
  from exporter_exception_exits [of no_ultralytics_env ?s boom "world ?s" "''best.pt''" "''out''"] i1
  have a: "fst (export_to_onnx no_ultralytics_env ''best.pt'' ''out'' ?s) = Exit 1"
    by simp
  from exporter_exception_exits [of bad_checkpoint_env ?s boom "world ?s" "''best.pt''" "''out''" "world ?s"] i2 y2
  have b: "fst (export_to_onnx bad_checkpoint_env ''best.pt'' ''out'' ?s) = Exit 1"
    by simp
  from exporter_exception_exits [of failing_export_env ?s boom "world ?s" "''best.pt''" "''out''" "world ?s" "()" "world ?s"]
    i3 y3 x3
  have c: "export_to_onnx failing_export_env ''best.pt'' ''out'' ?s =
        (Exit 1, ?s\<lparr>world := world ?s,
                   trace := trace ?s @ [Invoke Exporter, Import ''ultralytics'', YoloLoad ''best.pt'',
                                       ModelExport ''onnx'' 640],
                   stdout := stdout ?s @ [newline @ ''[1/3] Exporting '' @ ''best.pt'' @ '' to ONNX...'',
                                         cross_mark @ '' ONNX export failed: '' @ exn_str boom]\<rparr>)"
    by blast
  let ?a = "demo_args None"
  let ?x = "export_to_onnx failing_export_env (weights ?a) (os_path_dirname (output_arg ?a))
              (started ?a demo_world)"
  have p: "path_exists demo_world (weights ?a)" by (rule demo_weights)
  have x: "?x = (Exit 1, snd ?x)" by (simp add: eval_defs2)
  have t: "trace (snd ?x) =
     [OsPathExists ''best.pt'', Invoke Exporter, Import ''ultralytics'', YoloLoad ''best.pt'',
      ModelExport ''onnx'' 640]"
    by (simp add: eval_defs2)
  from exporter_exception_exits [where env = failing_export_env and w = demo_world and a = ?a and sx = "snd ?x"] p x
  have d: "main failing_export_env ?a (initial demo_world) = (Exit 1, snd ?x) \<and>
           exit_status (main failing_export_env ?a (initial demo_world)) = 1"
    by blast
  from d t have e: "exit_status (main failing_export_env ?a (initial demo_world)) = 1 \<and>
      trace (snd (main failing_export_env ?a (initial demo_world))) =
        [OsPathExists ''best.pt'', Invoke Exporter, Import ''ultralytics'', YoloLoad ''best.pt'',
         ModelExport ''onnx'' 640]"
    by (simp add: exit_status_def)
  from a b c ok have
    "fst (export_to_onnx no_ultralytics_env ''best.pt'' ''out'' ?s) = Exit 1 \<and>
     fst (export_to_onnx bad_checkpoint_env ''best.pt'' ''out'' ?s) = Exit 1 \<and>
     fst (export_to_onnx failing_export_env ''best.pt'' ''out'' ?s) = Exit 1 \<and>
     stdout (snd (export_to_onnx failing_export_env ''best.pt'' ''out'' ?s)) =
       [newline @ ''[1/3] Exporting best.pt to ONNX...'', cross_mark @ '' ONNX export failed: boom''] \<and>
     fst (export_to_onnx demo_env ''best.pt'' ''out'' ?s) = Ok ''best.onnx''"
    by (simp add: initial_def boom_def)
  with e show ?thesis by blast
qed

subsection \<open>C6: the validator returns a boolean\<close>

text \<open>
  Claim C6. The validator always returns a boolean and lets no exception through. It
  returns \<open>True\<close> exactly when the import, the load of the binary, the tensor allocation
  and both descriptor reads succeed and the first input descriptor exists and has the
  keys \<open>shape\<close> and \<open>dtype\<close>; in every other case (an exception in any of the calls, an
  empty list of input descriptors, a missing key) it prints "Model validation failed:"
  with the text of the exception and returns \<open>False\<close>: whatever exception the body of
  the \<open>try\<close> raises is the one reported. A \<open>False\<close> from the validator makes \<open>main\<close>
  exit with status 1.
\<close>

theorem validator_always_returns_boolean:
  "(\<exists>b s'. validate_tflite env p s = (Ok b, s') \<and>
     (b \<longleftrightarrow> (\<exists>w1 i0 w2 i w3 ind w4 outd w5 d rest sh dt.
           import_tensorflow env (world s) = (Inr (), w1) \<and>
           Interpreter env p w1 = (Inr i0, w2) \<and>
           allocate_tensors env i0 w2 = (Inr i, w3) \<and>
           get_input_details env i w3 = (Inr ind, w4) \<and>
           get_output_details env i w4 = (Inr outd, w5) \<and>
           ind = d # rest \<and> d ''shape'' = Some sh \<and> d ''dtype'' = Some dt)) \<and>
     (b \<or> (\<exists>e. last (stdout s') = cross_mark @ '' Model validation failed: '' @ exn_str e))) \<and>
   (validate_body env p (entered Validator (newline @ ''[3/3] Validating TFLite model...'') s) = (Raise e, sr) \<longrightarrow>
      validate_tflite env p s =
        (Ok False, sr\<lparr>stdout := stdout sr @ [cross_mark @ '' Model validation failed: '' @ exn_str e]\<rparr>)) \<and>
   (path_exists w (weights a) \<and>
    export_to_onnx env (weights a) (os_path_dirname (output_arg a)) (started a w) = (Ok onnx_path, sb) \<and>
    convert_to_tflite env onnx_path (output_arg a) sb = (Ok True, sc) \<and>
    fst (validate_tflite env (output_arg a) sc) = Ok False \<longrightarrow>
      exit_status (main env a (initial w)) = 1)"
proof (intro conjI impI)
  show "\<exists>b s'. validate_tflite env p s = (Ok b, s') \<and>
     (b \<longleftrightarrow> (\<exists>w1 i0 w2 i w3 ind w4 outd w5 d rest sh dt.
           import_tensorflow env (world s) = (Inr (), w1) \<and>
           Interpreter env p w1 = (Inr i0, w2) \<and>
           allocate_tensors env i0 w2 = (Inr i, w3) \<and>
           get_input_details env i w3 = (Inr ind, w4) \<and>
           get_output_details env i w4 = (Inr outd, w5) \<and>
           ind = d # rest \<and> d ''shape'' = Some sh \<and> d ''dtype'' = Some dt)) \<and>
     (b \<or> (\<exists>e. last (stdout s') = cross_mark @ '' Model validation failed: '' @ exn_str e))"
    by (rule validate_characterised)
next
  assume "validate_body env p (entered Validator (newline @ ''[3/3] Validating TFLite model...'') s) = (Raise e, sr)"
  then show "validate_tflite env p s =
        (Ok False, sr\<lparr>stdout := stdout sr @ [cross_mark @ '' Model validation failed: '' @ exn_str e]\<rparr>)"
    by (simp add: validate_unfold try_except_def validate_failed_result)
next
  assume "path_exists w (weights a) \<and>
    export_to_onnx env (weights a) (os_path_dirname (output_arg a)) (started a w) = (Ok onnx_path, sb) \<and>
    convert_to_tflite env onnx_path (output_arg a) sb = (Ok True, sc) \<and>
    fst (validate_tflite env (output_arg a) sc) = Ok False"
  then show "exit_status (main env a (initial w)) = 1"
    using main_validate_false [of w a env onnx_path sb sc] by blast
qed

text \<open>An instance: an interpreter that reports no input tensor.\<close>

theorem validator_always_returns_boolean_witness:
  "fst (validate_tflite no_inputs_env ''model.tflite'' (initial demo_world)) = Ok False \<and>
   last (stdout (snd (validate_tflite no_inputs_env ''model.tflite'' (initial demo_world)))) =
     cross_mark @ '' Model validation failed: list index out of range'' \<and>
   exit_status (main no_inputs_env (demo_args None) (initial demo_world)) = 1"
proof -
  let ?a = "demo_args None"
  let ?w = "demo_world"
  let ?e = "export_to_onnx no_inputs_env (weights ?a) (os_path_dirname (output_arg ?a)) (started ?a ?w)"
  let ?c = "convert_to_tflite no_inputs_env ''best.onnx'' (output_arg ?a) (snd ?e)"
  have 1: "path_exists ?w (weights ?a)" by (rule demo_weights)
  have 2: "?e = (Ok ''best.onnx'', snd ?e)" by (simp add: eval_defs2)
  have 3: "?c = (Ok True, snd ?c)" by (simp add: eval_defs2)
  have 4: "fst (validate_tflite no_inputs_env (output_arg ?a) (snd ?c)) = Ok False"
    by (simp add: eval_defs2)
  have 5: "fst (validate_tflite no_inputs_env ''model.tflite'' (initial ?w)) = Ok False"
    by (simp add: eval_defs2)
  have 6: "last (stdout (snd (validate_tflite no_inputs_env ''model.tflite'' (initial ?w)))) =
     cross_mark @ '' Model validation failed: list index out of range''"
    by (simp add: eval_defs2)
  from validator_always_returns_boolean [where env = no_inputs_env and w = ?w and a = ?a
      and onnx_path = "''best.onnx''" and sb = "snd ?e" and sc = "snd ?c"]
    1 2 3 4
  have "exit_status (main no_inputs_env ?a (initial ?w)) = 1"
    by blast
  with 5 6 show ?thesis by simp
qed

subsection \<open>C7: where the installer copies to\<close>

text \<open>
  Claim C7. For every project path the installer's directory is the parsed project path
  followed by \<open>app/src/main/assets\<close> and its destination is that directory followed by
  \<open>yolo_plate_detector.tflite\<close>: no input other than the project path enters either.
  The installer first calls \<open>mkdir(parents=True, exist_ok=True)\<close> on the directory and,
  if that does not raise, \<open>shutil.copy\<close> from the binary to the destination, and makes
  no other call. The \<open>mkdir\<close> succeeds without changing anything when the directory
  exists already; it succeeds on a writable file system when no regular file stands on
  the way; whenever it succeeds the directory exists afterwards. When the installer
  returns \<open>True\<close> (and no directory stood at the destination name) the destination is
  a regular file holding the bytes of the binary.
\<close>

theorem installer_fixed_destination:
  "assets_dir proj = PurePath (anchor (Path proj)) (parts (Path proj) @ [''app'', ''src'', ''main'', ''assets'']) \<and>
   target_path proj =
     PurePath (anchor (Path proj))
       (parts (Path proj) @ [''app'', ''src'', ''main'', ''assets'', ''yolo_plate_detector.tflite'']) \<and>
   (\<exists>rest. trace (snd (copy_to_android_assets t proj s)) =
              trace s @ [Invoke Installer, Mkdir (assets_dir proj)] @ rest \<and>
            (rest = [] \<or> rest = [ShutilCopy t (target_path proj)])) \<and>
   (is_dir (world s) (assets_dir proj) \<longrightarrow>
      mkdir_parents_exist_ok (assets_dir proj) (world s) = Inr (world s)) \<and>
   (\<not> read_only (world s) \<and> unobstructed (world s) (assets_dir proj) \<longrightarrow>
      (\<exists>w'. mkdir_parents_exist_ok (assets_dir proj) (world s) = Inr w')) \<and>
   (mkdir_parents_exist_ok (assets_dir proj) (world s) = Inr w1 \<longrightarrow>
      is_dir w1 (assets_dir proj) \<and>
      ShutilCopy t (target_path proj) \<in> set (trace (snd (copy_to_android_assets t proj s)))) \<and>
   (copy_to_android_assets t proj s = (Ok True, s') \<and> \<not> is_dir (world s) (target_path proj) \<longrightarrow>
      is_dir (world s') (assets_dir proj) \<and>
      (\<exists>c. lookup (world s') (target_path proj) = Some (File c) \<and>
           stat_str (world s') t = Some (File c)))"
  using assets_dir_parts [of proj] target_path_parts [of proj] installer_trace [of t proj s]
    mkdir_existing [of "world s" "assets_dir proj"] mkdir_creates [of "assets_dir proj" "world s" w1]
    mkdir_succeeds [of "world s" "assets_dir proj"]
    installer_reaches_copy [of proj s w1 t] installer_success [of t proj s s']
  by blast

text \<open>
  Instances: two project paths; a tree in which the directory exists; a tree in which
  it does not, where it is created and the file copied.
\<close>

theorem installer_fixed_destination_witness:
  "fspath (target_path ''proj'') = ''proj/app/src/main/assets/yolo_plate_detector.tflite'' \<and>
   fspath (target_path ''/srv/other/'') = ''/srv/other/app/src/main/assets/yolo_plate_detector.tflite'' \<and>
   mkdir_parents_exist_ok (assets_dir ''proj'') installed_world = Inr installed_world \<and>
   \<not> is_dir demo_world (assets_dir ''proj'') \<and>
   (\<exists>w'. mkdir_parents_exist_ok (assets_dir ''proj'') demo_world = Inr w') \<and>
   ShutilCopy ''best.pt'' (target_path ''proj'')
     \<in> set (trace (snd (copy_to_android_assets ''best.pt'' ''proj'' (initial demo_world)))) \<and>
   is_dir (world (snd (copy_to_android_assets ''best.pt'' ''proj'' (initial demo_world))))
     (assets_dir ''proj'') \<and>
   lookup (world (snd (copy_to_android_assets ''best.pt'' ''proj'' (initial demo_world))))
     (target_path ''proj'') = Some (File ''weights'')"
proof -
  let ?s = "initial demo_world"
  let ?r = "copy_to_android_assets ''best.pt'' ''proj'' ?s"
  have names: "fspath (target_path ''proj'') = ''proj/app/src/main/assets/yolo_plate_detector.tflite''"
    "fspath (target_path ''/srv/other/'') = ''/srv/other/app/src/main/assets/yolo_plate_detector.tflite''"
    by (simp_all add: eval_defs2)
  have there: "is_dir (world (initial installed_world)) (assets_dir ''proj'')"
    by (simp add: eval_defs2)
  have absent: "\<not> is_dir demo_world (assets_dir ''proj'')"
    by (simp add: eval_defs2)
  have writable: "\<not> read_only (world ?s)"
    by (simp add: eval_defs2)
  have clear: "unobstructed (world ?s) (assets_dir ''proj'')"
    by (simp add: eval_defs2 unobstructed_def)
  from installer_fixed_destination [of "''proj''" "''best.pt''" ?s] writable clear
  obtain w1 where mk: "mkdir_parents_exist_ok (assets_dir ''proj'') (world ?s) = Inr w1"
    by blast
  then have made: "\<exists>w'. mkdir_parents_exist_ok (assets_dir ''proj'') demo_world = Inr w'"
    by (auto simp: initial_def)
  have ok: "?r = (Ok True, snd ?r)"
    by (simp add: eval_defs2)
  have free: "\<not> is_dir (world ?s) (target_path ''proj'')"
    by (simp add: eval_defs2)
  have src: "stat_str (world (snd ?r)) ''best.pt'' = Some (File ''weights'')"
    by (simp add: eval_defs2)
  from installer_fixed_destination [of "''proj''" "''model.tflite''" "initial installed_world"] there
  have "mkdir_parents_exist_ok (assets_dir ''proj'') (world (initial installed_world)) =
          Inr (world (initial installed_world))"
    by blast
  then have a: "mkdir_parents_exist_ok (assets_dir ''proj'') installed_world = Inr installed_world"
    by (simp add: initial_def)
  from installer_fixed_destination [of "''proj''" "''best.pt''" ?s w1 "snd ?r"] mk ok free
  have b: "ShutilCopy ''best.pt'' (target_path ''proj'') \<in> set (trace (snd ?r))"
    and c: "is_dir (world (snd ?r)) (assets_dir ''proj'')"
    and d: "\<exists>c. lookup (world (snd ?r)) (target_path ''proj'') = Some (File c) \<and>
               stat_str (world (snd ?r)) ''best.pt'' = Some (File c)"
    by blast+
  from d src have "lookup (world (snd ?r)) (target_path ''proj'') = Some (File ''weights'')"
    by auto
  with names absent made a b c show ?thesis by simp
qed

subsection \<open>C8: the exporter's path is not checked\<close>

text \<open>
  Claim C8. When the exporter returns a path, the calls made so far are the existence
  check of the weights file and the exporter's three steps, and the next call is the
  conversion subprocess with that path after \<open>--input\<close>: nothing checks that a
  file exists at the returned path, neither in the exporter nor between the exporter
  and the converter. (The converter's own result is checked with \<open>os.path.exists\<close>,
  see C2.)
\<close>

theorem exporter_path_goes_unchecked_to_converter:
  assumes "path_exists w (weights a)"
      and "export_to_onnx env (weights a) (os_path_dirname (output_arg a)) (started a w) = (Ok onnx_path, s2)"
  shows "trace s2 = [OsPathExists (weights a), Invoke Exporter, Import ''ultralytics'',
                     YoloLoad (weights a), ModelExport ''onnx'' 640] \<and>
         (\<exists>rest. trace (snd (main env a (initial w))) =
            trace s2 @ [Invoke Converter, SubprocessRun (convert_cmd onnx_path (output_arg a))] @ rest)"
  using export_ok_trace [OF assms(2)] pipeline_after_export [OF assms(2)] main_started [OF assms(1), of env]
  by (simp add: started_def)

text \<open>An instance: an exporter that returns a path at which nothing exists.\<close>

theorem exporter_path_goes_unchecked_to_converter_witness:
  "\<not> path_exists (world (snd (export_to_onnx demo_env ''best.pt'' '''' (started (demo_args None) demo_world)))) ''best.onnx'' \<and>
   (\<exists>rest. trace (snd (main demo_env (demo_args None) (initial demo_world))) =
      [OsPathExists ''best.pt'', Invoke Exporter, Import ''ultralytics'', YoloLoad ''best.pt'',
       ModelExport ''onnx'' 640, Invoke Converter,
       SubprocessRun [''python'', ''-m'', ''tf2onnx.convert'', ''--opset'', ''13'',
                      ''--tflite'', ''model.tflite'', ''--input'', ''best.onnx'']] @ rest)"
proof -
  let ?a = "demo_args None"
  let ?w = "demo_world"
  let ?e = "export_to_onnx demo_env (weights ?a) (os_path_dirname (output_arg ?a)) (started ?a ?w)"
  have 1: "path_exists ?w (weights ?a)" by (rule demo_weights)
  have 2: "?e = (Ok ''best.onnx'', snd ?e)" by (rule demo_export)
  have 3: "\<not> path_exists (world (snd (export_to_onnx demo_env ''best.pt'' '''' (started ?a ?w)))) ''best.onnx''"
    by (simp add: eval_defs2)
  from exporter_path_goes_unchecked_to_converter [OF 1 2]
  obtain rest where
    t: "trace (snd ?e) = [OsPathExists (weights ?a), Invoke Exporter, Import ''ultralytics'',
                         YoloLoad (weights ?a), ModelExport ''onnx'' 640]"
    and m: "trace (snd (main demo_env ?a (initial ?w))) =
         trace (snd ?e) @ [Invoke Converter, SubprocessRun (convert_cmd ''best.onnx'' (output_arg ?a))] @ rest"
    by auto
  from m have "trace (snd (main demo_env ?a (initial ?w))) =
      [OsPathExists ''best.pt'', Invoke Exporter, Import ''ultralytics'', YoloLoad ''best.pt'',
       ModelExport ''onnx'' 640, Invoke Converter,
       SubprocessRun [''python'', ''-m'', ''tf2onnx.convert'', ''--opset'', ''13'',
                      ''--tflite'', ''model.tflite'', ''--input'', ''best.onnx'']] @ rest"
    unfolding t by (simp add: demo_args_def convert_cmd_def)
  with 3 show ?thesis by blast
qed

subsection \<open>C9: the exporter ignores its output directory\<close>

text \<open>
  Claim C9. For the same tools, weights path and state, the exporter does the same with
  any two output directories: the same calls, the same lines, the same result.
\<close>

theorem exporter_ignores_output_dir:
  "export_to_onnx env weights_path dir1 s = export_to_onnx env weights_path dir2 s"
  by (simp add: export_to_onnx_def)

text \<open>An instance.\<close>

theorem exporter_ignores_output_dir_witness:
  "export_to_onnx demo_env ''best.pt'' ''out'' (initial demo_world) =
   export_to_onnx demo_env ''best.pt'' ''/tmp/elsewhere'' (initial demo_world)"
  by (rule exporter_ignores_output_dir)

subsection \<open>C10: an installed model is overwritten\<close>



end
